theory Spec2Isabelle
  imports Complex_Main "HOL-Library.AList"
begin

section \<open>Values, exceptions and the world outside the notebooks\<close>

text \<open>
  The two notebooks orchestrate calls into a statistics library and a charting library.
  Neither library is part of the repository, so every library entry point is a parameter
  of the model: a function on an abstract library state \<open>'s\<close> (the global random
  generator seeded by \<^verbatim>\<open>np.random.seed(0)\<close>, the estimator objects, whatever else the
  library keeps) that either raises or returns. Estimator objects are references \<open>'e\<close>
  into that state, arrays are values \<open>'a\<close>, library exceptions are values \<open>'x\<close>.
\<close>

datatype 'x exn =
  ZeroDivisionError | OverflowError | UnboundLocalError | KeyError | LibraryError 'x

section \<open>Python floats\<close>

text \<open>
  A Python float is an IEEE 754 double: a finite value, an infinity or a NaN (the sign of
  zero is not kept: nothing in the notebooks observes it). Every arithmetic operation
  computes the exact result and rounds it to the nearest double, ties to the even
  significand; a result too large for a double is an infinity.
\<close>

datatype pyfloat = Finite (finite_value: real) | PosInf | NegInf | NaN

definition pow2 :: "int \<Rightarrow> real" where
  "pow2 e = (if 0 \<le> e then 2 ^ nat e else 1 / 2 ^ nat (- e))"

text \<open>The number of binary digits of a positive integer.\<close>

function bit_length :: "int \<Rightarrow> int" where
  "bit_length n = (if n \<le> 0 then 0 else 1 + bit_length (n div 2))"
  by pat_completeness auto
termination
  by (relation "measure nat") auto

declare bit_length.simps [simp del]

text \<open>The exponent \<open>e\<close> with \<open>2 ^ e \<le> x < 2 ^ (e + 1)\<close>, for a positive \<open>x\<close>.\<close>

definition binary_exponent :: "real \<Rightarrow> int" where
  "binary_exponent x =
     (if 1 \<le> x then bit_length \<lfloor>x\<rfloor> - 1 else - bit_length (\<lceil>1 / x\<rceil> - 1))"

definition round_half_even :: "real \<Rightarrow> int" where
  "round_half_even r =
     (let f = \<lfloor>r\<rfloor>; d = r - of_int f
      in if d < 1 / 2 then f else if 1 / 2 < d then f + 1 else if even f then f else f + 1)"

text \<open>
  Rounding to a double: 53 significant bits, the exponent of a normal number between
  \<open>-1022\<close> and \<open>1023\<close>, below that the fixed spacing \<open>2 ^ -1074\<close> of the subnormal numbers.
\<close>

definition round_double :: "real \<Rightarrow> pyfloat" where
  "round_double x =
     (if x = 0 then Finite 0
      else let e = max (binary_exponent \<bar>x\<bar>) (- 1022);
               quantum = pow2 (e - 52);
               m = round_half_even (x / quantum)
           in if 1023 < e \<or> (e = 1023 \<and> 2 ^ 53 \<le> \<bar>m\<bar>)
              then (if 0 < x then PosInf else NegInf)
              else Finite (of_int m * quantum))"

text \<open>\<^verbatim>\<open>float(n)\<close> for an integer \<open>n\<close>: rounded, \<open>OverflowError\<close> when too large.\<close>

definition py_float :: "int \<Rightarrow> 'x exn + pyfloat" where
  "py_float n =
     (case round_double (of_int n) of Finite r \<Rightarrow> Inr (Finite r) | _ \<Rightarrow> Inl OverflowError)"

text \<open>\<^verbatim>\<open>a - b\<close> on floats; it never raises.\<close>

fun py_sub :: "pyfloat \<Rightarrow> pyfloat \<Rightarrow> pyfloat" where
  "py_sub (Finite a) (Finite b) = round_double (a - b)"
| "py_sub NaN _ = NaN"
| "py_sub _ NaN = NaN"
| "py_sub PosInf PosInf = NaN"
| "py_sub NegInf NegInf = NaN"
| "py_sub PosInf _ = PosInf"
| "py_sub NegInf _ = NegInf"
| "py_sub (Finite a) PosInf = NegInf"
| "py_sub (Finite a) NegInf = PosInf"

text \<open>
  \<^verbatim>\<open>a / b\<close> on floats: Python raises \<open>ZeroDivisionError\<close> for a zero divisor, whatever
  the dividend, and follows IEEE 754 otherwise.
\<close>

fun py_truediv :: "pyfloat \<Rightarrow> pyfloat \<Rightarrow> 'x exn + pyfloat" where
  "py_truediv a (Finite b) =
     (if b = 0 then Inl ZeroDivisionError
      else Inr (case a of
                  Finite x \<Rightarrow> round_double (x / b)
                | PosInf \<Rightarrow> (if 0 < b then PosInf else NegInf)
                | NegInf \<Rightarrow> (if 0 < b then NegInf else PosInf)
                | NaN \<Rightarrow> NaN))"
| "py_truediv (Finite x) PosInf = Inr (Finite 0)"
| "py_truediv (Finite x) NegInf = Inr (Finite 0)"
| "py_truediv a b = Inr NaN"

text \<open>The values a hyperparameter takes in the notebooks.\<close>

datatype pyval = PyStr string | PyInt int | PyFloat pyfloat | PyBool bool

section \<open>The world a run acts on\<close>

text \<open>
  The log of the calls a run makes, in order. It is ghost state: the source keeps no such
  log, the model appends to it at exactly the places where the source calls out.
  \<open>Raise e\<close> is appended when a call, or the code's own arithmetic, raises \<open>e\<close>.
\<close>

datatype ('a, 'x) event =
    Construct
  | Stdout
  | Fit 'a 'a
  | PostfitHook
  | ComplexityComputer
  | Time pyfloat
  | Predict 'a
  | PerformanceComputer 'a 'a
  | Raise "'x exn"

text \<open>
  \<open>lib\<close> is the library state and \<open>ticks\<close> the number of calls of \<^verbatim>\<open>time.time()\<close> so
  far. \<open>clock s k\<close> is what call number \<open>k\<close> of \<^verbatim>\<open>time.time()\<close> returns when it is made
  with the library in state \<open>s\<close>: the wall clock shows how far the work has come. The
  library functions see \<open>lib\<close> only, never the clock.
\<close>

record ('a, 's, 'x) world =
  lib :: 's
  clock :: "'s \<Rightarrow> nat \<Rightarrow> pyfloat"
  ticks :: nat
  trace :: "('a, 'x) event list"

definition and_then ::
  "('w \<Rightarrow> ('x + 'r) \<times> 'w) \<Rightarrow> ('r \<Rightarrow> 'w \<Rightarrow> ('x + 'q) \<times> 'w) \<Rightarrow> 'w \<Rightarrow> ('x + 'q) \<times> 'w" where
  "and_then m f w = (case m w of (Inl e, w') \<Rightarrow> (Inl e, w') | (Inr r, w') \<Rightarrow> f r w')"

definition return :: "'r \<Rightarrow> 'w \<Rightarrow> ('x + 'r) \<times> 'w" where
  "return r w = (Inr r, w)"

definition raise :: "'x exn \<Rightarrow> ('a, 's, 'x) world \<Rightarrow> ('x exn + 'r) \<times> ('a, 's, 'x) world" where
  "raise e w = (Inl e, w\<lparr>trace := trace w @ [Raise e]\<rparr>)"

text \<open>A call into the library: logged, run on the library state, its exception logged.\<close>

definition call ::
  "('a, 'x) event \<Rightarrow> ('s \<Rightarrow> ('x exn + 'r) \<times> 's) \<Rightarrow> ('a, 's, 'x) world
     \<Rightarrow> ('x exn + 'r) \<times> ('a, 's, 'x) world" where
  "call ev f w =
     (case f (lib w) of
        (Inl e, s') \<Rightarrow> (Inl e, w\<lparr>lib := s', trace := trace w @ [ev, Raise e]\<rparr>)
      | (Inr r, s') \<Rightarrow> (Inr r, w\<lparr>lib := s', trace := trace w @ [ev]\<rparr>))"

text \<open>\<^verbatim>\<open>time.time()\<close>: the next reading of the clock.\<close>

definition time_time :: "('a, 's, 'x) world \<Rightarrow> ('x exn + pyfloat) \<times> ('a, 's, 'x) world" where
  "time_time w =
     (Inr (clock w (lib w) (ticks w)),
      w\<lparr>ticks := Suc (ticks w), trace := trace w @ [Time (clock w (lib w) (ticks w))]\<rparr>)"

text \<open>\<^verbatim>\<open>print(...)\<close>: the text goes to standard output; only the fact is logged.\<close>

definition print :: "('a, 's, 'x) world \<Rightarrow> ('x exn + unit) \<times> ('a, 's, 'x) world" where
  "print w = (Inr (), w\<lparr>trace := trace w @ [Stdout]\<rparr>)"

text \<open>An operation of the code's own that raises or gives a value, such as a division.\<close>

definition evaluate ::
  "'x exn + 'r \<Rightarrow> ('a, 's, 'x) world \<Rightarrow> ('x exn + 'r) \<times> ('a, 's, 'x) world" where
  "evaluate r = (case r of Inl e \<Rightarrow> raise e | Inr v \<Rightarrow> return v)"

text \<open>Reading a local variable that may not have been assigned yet.\<close>

definition read_local ::
  "'v option \<Rightarrow> ('a, 's, 'x) world \<Rightarrow> ('x exn + 'v) \<times> ('a, 's, 'x) world" where
  "read_local v = (case v of None \<Rightarrow> raise UnboundLocalError | Some y \<Rightarrow> return y)"

section \<open>The complexity sweep: configuration records\<close>

text \<open>
  An estimator class as the sweep uses it: \<^verbatim>\<open>conf['estimator'](**kwargs)\<close> constructs an
  object, \<^verbatim>\<open>estimator.fit(X, y)\<close> and \<^verbatim>\<open>estimator.predict(X)\<close> are its methods, and
  \<^verbatim>\<open>conf['estimator'].__name__\<close> is its name.
\<close>

record ('e, 'a, 's, 'x) estimator_class =
  class_name :: string
  init :: "(string \<rightharpoonup> pyval) \<Rightarrow> 's \<Rightarrow> ('x exn + 'e) \<times> 's"
  fit :: "'e \<Rightarrow> 'a \<Rightarrow> 'a \<Rightarrow> 's \<Rightarrow> ('x exn + unit) \<times> 's"
  predict :: "'e \<Rightarrow> 'a \<Rightarrow> 's \<Rightarrow> ('x exn + 'a) \<times> 's"

text \<open>The dictionary that \<^verbatim>\<open>generate_data\<close> returns.\<close>

record 'a dataset =
  X_train :: 'a
  X_test :: 'a
  y_train :: 'a
  y_test :: 'a

text \<open>One entry of \<^verbatim>\<open>configurations\<close>, with the keys of the source.\<close>

record ('e, 'a, 's, 'x) conf =
  estimator :: "('e, 'a, 's, 'x) estimator_class"
  tuned_params :: "string \<rightharpoonup> pyval"
  changing_param :: string
  changing_param_values :: "pyval list"
  complexity_label :: string
  complexity_computer :: "'e \<Rightarrow> 's \<Rightarrow> ('x exn + int) \<times> 's"
  prediction_performance_computer :: "'a \<Rightarrow> 'a \<Rightarrow> 's \<Rightarrow> ('x exn + pyfloat) \<times> 's"
  prediction_performance_label :: string
  postfit_hook :: "'e \<Rightarrow> 's \<Rightarrow> ('x exn + unit) \<times> 's"
  data :: "'a dataset"
  n_samples :: int

section \<open>The complexity sweep: \<open>benchmark_influence\<close>\<close>

text \<open>
  The local variables of \<^verbatim>\<open>benchmark_influence\<close>. \<open>y_pred\<close> is function-scoped in
  Python: it is unbound until the first \<^verbatim>\<open>predict\<close> returns and survives from one
  parameter value to the next.
\<close>

record 'a locals =
  prediction_times :: "pyfloat list"
  prediction_powers :: "pyfloat list"
  complexities :: "int list"
  y_pred :: "'a option"

text \<open>
  \<^verbatim>\<open>
  for _ in range(conf['n_samples']):
      y_pred = estimator.predict(conf['data']['X_test'])
  \<close>
\<close>

fun predict_loop ::
  "nat \<Rightarrow> ('s \<Rightarrow> ('x exn + 'a) \<times> 's) \<Rightarrow> 'a \<Rightarrow> 'a option \<Rightarrow> ('a, 's, 'x) world
     \<Rightarrow> ('x exn + 'a option) \<times> ('a, 's, 'x) world" where
  "predict_loop 0 p X yp w = (Inr yp, w)"
| "predict_loop (Suc k) p X yp w =
     (case call (Predict X) p w of
        (Inl e, w') \<Rightarrow> (Inl e, w')
      | (Inr y, w') \<Rightarrow> predict_loop k p X (Some y) w')"

text \<open>
  The body of the loop over the parameter values, after the assignment to
  \<^verbatim>\<open>conf['tuned_params']\<close>:
  \<^verbatim>\<open>
  estimator = conf['estimator'](**conf['tuned_params'])
  print("Benchmarking %s" % estimator)
  estimator.fit(conf['data']['X_train'], conf['data']['y_train'])
  conf['postfit_hook'](estimator)
  complexity = conf['complexity_computer'](estimator)
  complexities.append(complexity)
  start_time = time.time()
  for _ in range(conf['n_samples']):
      y_pred = estimator.predict(conf['data']['X_test'])
  elapsed_time = (time.time() - start_time) / float(conf['n_samples'])
  prediction_times.append(elapsed_time)
  pred_score = conf['prediction_performance_computer'](
      conf['data']['y_test'], y_pred)
  prediction_powers.append(pred_score)
  print("Complexity: %d | %s: %.4f | Pred. Time: %fs\n" % (...))
  \<close>
\<close>

definition benchmark_body ::
  "('e, 'a, 's, 'x) conf \<Rightarrow> 'a locals \<Rightarrow> ('a, 's, 'x) world
     \<Rightarrow> ('x exn + 'a locals) \<times> ('a, 's, 'x) world" where
  "benchmark_body cf loc =
     and_then (call Construct (init (estimator cf) (tuned_params cf))) (\<lambda>est.
     and_then print (\<lambda>_.
     and_then (call (Fit (X_train (data cf)) (y_train (data cf)))
                 (fit (estimator cf) est (X_train (data cf)) (y_train (data cf)))) (\<lambda>_.
     and_then (call PostfitHook (postfit_hook cf est)) (\<lambda>_.
     and_then (call ComplexityComputer (complexity_computer cf est)) (\<lambda>complexity.
     and_then time_time (\<lambda>start_time.
     and_then (predict_loop (nat (n_samples cf))
                 (predict (estimator cf) est (X_test (data cf))) (X_test (data cf))
                 (y_pred loc)) (\<lambda>yp.
     and_then time_time (\<lambda>end_time.
     and_then (evaluate (py_float (n_samples cf))) (\<lambda>samples.
     and_then (evaluate (py_truediv (py_sub end_time start_time) samples)) (\<lambda>elapsed_time.
     and_then (read_local yp) (\<lambda>y_pred_value.
     and_then (call (PerformanceComputer (y_test (data cf)) y_pred_value)
                 (prediction_performance_computer cf (y_test (data cf)) y_pred_value))
       (\<lambda>pred_score.
     and_then print (\<lambda>_.
     return \<lparr>prediction_times = prediction_times loc @ [elapsed_time],
             prediction_powers = prediction_powers loc @ [pred_score],
             complexities = complexities loc @ [complexity],
             y_pred = yp\<rparr>)))))))))))))"

text \<open>
  \<^verbatim>\<open>
  for param_value in conf['changing_param_values']:
      conf['tuned_params'][conf['changing_param']] = param_value
      ...
  \<close>
  The assignment writes into the dictionary the configuration holds, so the configuration
  is part of the state the loop passes on. An exception leaves the loop with the
  configuration as it is at that moment.
\<close>

fun sweep ::
  "pyval list \<Rightarrow> ('e, 'a, 's, 'x) conf \<Rightarrow> 'a locals \<Rightarrow> ('a, 's, 'x) world
     \<Rightarrow> ('x exn + 'a locals) \<times> ('e, 'a, 's, 'x) conf \<times> ('a, 's, 'x) world" where
  "sweep [] cf loc w = (Inr loc, cf, w)"
| "sweep (param_value # rest) cf loc w =
     (let cf' = cf\<lparr>tuned_params := (tuned_params cf)(changing_param cf \<mapsto> param_value)\<rparr>
      in case benchmark_body cf' loc w of
           (Inl e, w') \<Rightarrow> (Inl e, cf', w')
         | (Inr loc', w') \<Rightarrow> sweep rest cf' loc' w')"

text \<open>
  \<^verbatim>\<open>
  def benchmark_influence(conf):
      prediction_times = []
      prediction_powers = []
      complexities = []
      for param_value in conf['changing_param_values']: ...
      return prediction_powers, prediction_times, complexities
  \<close>
  The result is the exception or the returned triple, the configuration as the call leaves
  it, and the world as the call leaves it.
\<close>

definition benchmark_influence ::
  "('e, 'a, 's, 'x) conf \<Rightarrow> ('a, 's, 'x) world
     \<Rightarrow> ('x exn + pyfloat list \<times> pyfloat list \<times> int list) \<times> ('e, 'a, 's, 'x) conf \<times> ('a, 's, 'x) world"
  where
  "benchmark_influence cf w =
     (case sweep (changing_param_values cf) cf
             \<lparr>prediction_times = [], prediction_powers = [], complexities = [], y_pred = None\<rparr> w of
        (Inl e, cf', w') \<Rightarrow> (Inl e, cf', w')
      | (Inr loc, cf', w') \<Rightarrow>
          (Inr (prediction_powers loc, prediction_times loc, complexities loc), cf', w'))"

section \<open>The complexity sweep: \<open>plot_influence\<close>\<close>

text \<open>
  The keyword arguments of the charting calls are plain data: those of a
  \<^verbatim>\<open>go.Scatter\<close>, the dictionaries given for the axes, those of a \<^verbatim>\<open>go.Layout\<close>. A key
  the source does not give is \<open>None\<close>.
\<close>

record scatter =
  scatter_x :: "int list"
  scatter_y :: "pyfloat list"
  scatter_name :: string
  scatter_mode :: string
  scatter_yaxis :: "string option"
  line_color :: string

record axis =
  axis_title :: string
  showgrid :: bool
  titlefont_color :: "string option"
  overlaying :: "string option"
  side :: "string option"

record layout =
  layout_title :: string
  xaxis :: axis
  yaxis :: axis
  yaxis2 :: axis

text \<open>
  The charting library is outside the repository like the statistics library: its three
  constructors are parameters, functions on a state \<open>'g\<close> of the charting library that
  raise or return a trace \<open>'tr\<close>, a layout \<open>'ly\<close> or a figure \<open>'fig\<close>.
\<close>

record ('tr, 'ly, 'fig, 'g, 'x) chart_api =
  go_Scatter :: "scatter \<Rightarrow> 'g \<Rightarrow> ('x exn + 'tr) \<times> 'g"
  go_Layout :: "layout \<Rightarrow> 'g \<Rightarrow> ('x exn + 'ly) \<times> 'g"
  go_Figure :: "'tr list \<Rightarrow> 'ly \<Rightarrow> 'g \<Rightarrow> ('x exn + 'fig) \<times> 'g"

text \<open>
  \<^verbatim>\<open>
  def plot_influence(conf, mse_values, prediction_times, complexities):
      p1 = go.Scatter(x=complexities, y = mse_values,
                      name="prediction error", mode="lines",
                      line=dict(color="blue"))
      p2 = go.Scatter(x=complexities, y= prediction_times,
                      name="latency",mode="lines", yaxis='y2',
                      line=dict(color="red") )
      layout = go.Layout(
          title='Influence of Model Complexity - %s' % conf['estimator'].__name__,
          xaxis = dict(
              title='Model Complexity (%s)' % conf['complexity_label'],
              showgrid=False,),
          yaxis=dict(
              title=conf['prediction_performance_label'],
              titlefont=dict(color='blue'),
              showgrid=False),
          yaxis2=dict(
              title='Time (s)',
              showgrid=False,
              titlefont=dict(color='red'),
              overlaying='y',
              side='right'))
      fig = go.Figure(data=[p1,p2], layout=layout)
      return fig
  \<close>
  The result is the exception or the figure, the four arguments as the call leaves them,
  and the state of the charting library as the call leaves it.
\<close>

definition plot_influence ::
  "('tr, 'ly, 'fig, 'g, 'x) chart_api \<Rightarrow> ('e, 'a, 's, 'x) conf \<Rightarrow> pyfloat list \<Rightarrow> pyfloat list
     \<Rightarrow> int list \<Rightarrow> 'g
     \<Rightarrow> ('x exn + 'fig)
         \<times> (('e, 'a, 's, 'x) conf \<times> pyfloat list \<times> pyfloat list \<times> int list) \<times> 'g" where
  "plot_influence go cf mse_values prediction_times_arg complexities_arg g =
     (case
        and_then (go_Scatter go
            \<lparr>scatter_x = complexities_arg, scatter_y = mse_values,
             scatter_name = ''prediction error'', scatter_mode = ''lines'',
             scatter_yaxis = None, line_color = ''blue''\<rparr>) (\<lambda>p1.
        and_then (go_Scatter go
            \<lparr>scatter_x = complexities_arg, scatter_y = prediction_times_arg,
             scatter_name = ''latency'', scatter_mode = ''lines'',
             scatter_yaxis = Some ''y2'', line_color = ''red''\<rparr>) (\<lambda>p2.
        and_then (go_Layout go
            \<lparr>layout_title = ''Influence of Model Complexity - '' @ class_name (estimator cf),
             xaxis = \<lparr>axis_title = ''Model Complexity ('' @ complexity_label cf @ '')'',
                       showgrid = False, titlefont_color = None,
                       overlaying = None, side = None\<rparr>,
             yaxis = \<lparr>axis_title = prediction_performance_label cf,
                       showgrid = False, titlefont_color = Some ''blue'',
                       overlaying = None, side = None\<rparr>,
             yaxis2 = \<lparr>axis_title = ''Time (s)'',
                        showgrid = False, titlefont_color = Some ''red'',
                        overlaying = Some ''y'', side = Some ''right''\<rparr>\<rparr>) (\<lambda>layout.
        go_Figure go [p1, p2] layout))) g
      of (fig, g') \<Rightarrow>
        (fig, (cf, mse_values, prediction_times_arg, complexities_arg), g'))"

text \<open>
  A charting library whose constructors neither read nor change the state of the charting
  library: what they raise or return is the same in every state, and they leave the state
  as it is.
\<close>

definition stateless :: "('tr, 'ly, 'fig, 'g, 'x) chart_api \<Rightarrow> bool" where
  "stateless go \<longleftrightarrow>
     (\<forall>kwargs g h. go_Scatter go kwargs g = (fst (go_Scatter go kwargs h), g))
     \<and> (\<forall>kwargs g h. go_Layout go kwargs g = (fst (go_Layout go kwargs h), g))
     \<and> (\<forall>traces lay g h. go_Figure go traces lay g = (fst (go_Figure go traces lay h), g))"

section \<open>The out-of-bag error tracker\<close>

text \<open>
  What the second notebook uses of a \<^verbatim>\<open>RandomForestClassifier\<close> object:
  \<^verbatim>\<open>clf.set_params(n_estimators=i)\<close>, \<^verbatim>\<open>clf.fit(X, y)\<close> and the attribute
  \<^verbatim>\<open>clf.oob_score_\<close>, whose read raises when the attribute is missing.
\<close>

record ('e, 'a, 's, 'x) forest_api =
  set_params :: "'e \<Rightarrow> int \<Rightarrow> 's \<Rightarrow> ('x exn + unit) \<times> 's"
  fit_forest :: "'e \<Rightarrow> 'a \<Rightarrow> 'a \<Rightarrow> 's \<Rightarrow> ('x exn + unit) \<times> 's"
  oob_score :: "'e \<Rightarrow> 's \<Rightarrow> 'x exn + pyfloat"

text \<open>
  \<^verbatim>\<open>error_rate = OrderedDict((label, []) for label, _ in ensemble_clfs)\<close>: an ordered
  dictionary is an association list that \<open>AList.update\<close> writes in place or extends at
  the end.
\<close>

definition error_rate_init :: "(string \<times> 'e) list \<Rightarrow> (string \<times> (int \<times> pyfloat) list) list" where
  "error_rate_init ensemble_clfs =
     foldl (\<lambda>od (label, _). AList.update label [] od) [] ensemble_clfs"

text \<open>
  \<^verbatim>\<open>
  for i in range(min_estimators, max_estimators + 1):
      clf.set_params(n_estimators=i)
      clf.fit(X, y)
      oob_error = 1 - clf.oob_score_
      error_rate[label].append((i, oob_error))
  \<close>
  over the list of sizes still to do. The integer \<open>1\<close> becomes the float \<open>1.0\<close> and the
  subtraction is the subtraction of floats.
\<close>

fun grow ::
  "('e, 'a, 's, 'x) forest_api \<Rightarrow> 'a \<Rightarrow> 'a \<Rightarrow> string \<Rightarrow> 'e \<Rightarrow> int list
     \<Rightarrow> (string \<times> (int \<times> pyfloat) list) list \<Rightarrow> 's
     \<Rightarrow> ('x exn + (string \<times> (int \<times> pyfloat) list) list) \<times> 's" where
  "grow api X y label clf [] error_rate s = (Inr error_rate, s)"
| "grow api X y label clf (i # sizes) error_rate s =
     (case set_params api clf i s of
        (Inl e, s1) \<Rightarrow> (Inl e, s1)
      | (Inr _, s1) \<Rightarrow>
     (case fit_forest api clf X y s1 of
        (Inl e, s2) \<Rightarrow> (Inl e, s2)
      | (Inr _, s2) \<Rightarrow>
     (case oob_score api clf s2 of
        Inl e \<Rightarrow> (Inl e, s2)
      | Inr score \<Rightarrow>
     (let oob_error = py_sub (Finite 1) score in
      case map_of error_rate label of
        None \<Rightarrow> (Inl KeyError, s2)
      | Some recorded \<Rightarrow>
          grow api X y label clf sizes
            (AList.update label (recorded @ [(i, oob_error)]) error_rate) s2))))"

text \<open>
  \<^verbatim>\<open>for label, clf in ensemble_clfs: ...\<close>; \<^verbatim>\<open>range(min_estimators, max_estimators + 1)\<close>
  is the list \<open>[min_estimators..max_estimators]\<close>, empty when the upper bound is below
  the lower one.
\<close>

fun oob_loop ::
  "('e, 'a, 's, 'x) forest_api \<Rightarrow> 'a \<Rightarrow> 'a \<Rightarrow> int \<Rightarrow> int \<Rightarrow> (string \<times> 'e) list
     \<Rightarrow> (string \<times> (int \<times> pyfloat) list) list \<Rightarrow> 's
     \<Rightarrow> ('x exn + (string \<times> (int \<times> pyfloat) list) list) \<times> 's" where
  "oob_loop api X y min_e max_e [] error_rate s = (Inr error_rate, s)"
| "oob_loop api X y min_e max_e ((label, clf) # rest) error_rate s =
     (case grow api X y label clf [min_e..max_e] error_rate s of
        (Inl e, s') \<Rightarrow> (Inl e, s')
      | (Inr error_rate', s') \<Rightarrow> oob_loop api X y min_e max_e rest error_rate' s')"

definition oob_errors ::
  "('e, 'a, 's, 'x) forest_api \<Rightarrow> 'a \<Rightarrow> 'a \<Rightarrow> int \<Rightarrow> int \<Rightarrow> (string \<times> 'e) list \<Rightarrow> 's
     \<Rightarrow> ('x exn + (string \<times> (int \<times> pyfloat) list) list) \<times> 's" where
  "oob_errors api X y min_e max_e ensemble_clfs s =
     oob_loop api X y min_e max_e ensemble_clfs (error_rate_init ensemble_clfs) s"

text \<open>The range the notebook explores.\<close>

definition min_estimators :: int where "min_estimators = 15"

definition max_estimators :: int where "max_estimators = 175"

text \<open>
  The three labels of \<^verbatim>\<open>ensemble_clfs\<close>, as the notebook spells them (the first two end
  in an apostrophe), paired with the three forest objects the library constructed.
\<close>

definition ensemble_labels :: "string list" where
  "ensemble_labels =
     [''RandomForestClassifier,<br>max_features='sqrt'' @ [CHR 0x27],
      ''RandomForestClassifier,<br>max_features='log2'' @ [CHR 0x27],
      ''RandomForestClassifier,<br>max_features=None'']"

definition ensemble_clfs :: "'e \<Rightarrow> 'e \<Rightarrow> 'e \<Rightarrow> (string \<times> 'e) list" where
  "ensemble_clfs rf_sqrt rf_log2 rf_none = zip ensemble_labels [rf_sqrt, rf_log2, rf_none]"

section \<open>What a pass of a loop does with the library\<close>

text \<open>
  The contract of one pass of the sweep, stated on the library functions alone.
  \<open>fitted cf v s est complexity s'\<close>: from library state \<open>s\<close>, the constructor called
  with the fixed hyperparameters and the changing one set to \<open>v\<close> returns \<open>est\<close>, then
  \<open>fit\<close> on the training split, the hook and the complexity computer return in turn, the
  last one with \<open>complexity\<close>, leaving the library in state \<open>s'\<close>.
\<close>

definition fitted ::
  "('e, 'a, 's, 'x) conf \<Rightarrow> pyval \<Rightarrow> 's \<Rightarrow> 'e \<Rightarrow> int \<Rightarrow> 's \<Rightarrow> bool" where
  "fitted cf v s est complexity s' \<longleftrightarrow>
     (\<exists>s1 s2 s3.
        init (estimator cf) ((tuned_params cf)(changing_param cf \<mapsto> v)) s = (Inr est, s1)
      \<and> fit (estimator cf) est (X_train (data cf)) (y_train (data cf)) s1 = (Inr (), s2)
      \<and> postfit_hook cf est s2 = (Inr (), s3)
      \<and> complexity_computer cf est s3 = (Inr complexity, s'))"

text \<open>
  \<open>measured cf c k est s s' y elapsed\<close>: \<open>n_samples\<close> is positive and, from library state
  \<open>s\<close>, \<open>n_samples\<close> successive calls of \<open>predict\<close> on the test split return, one from the
  state the other left, the last one with \<open>y\<close> and in state \<open>s'\<close>; and \<open>elapsed\<close> is the
  float quotient, by \<^verbatim>\<open>float(n_samples)\<close>, of the float difference between reading
  \<open>k + 1\<close> of the clock, taken in state \<open>s'\<close>, and reading \<open>k\<close>, taken in state \<open>s\<close>.
\<close>

definition measured ::
  "('e, 'a, 's, 'x) conf \<Rightarrow> ('s \<Rightarrow> nat \<Rightarrow> pyfloat) \<Rightarrow> nat \<Rightarrow> 'e \<Rightarrow> 's \<Rightarrow> 's \<Rightarrow> 'a \<Rightarrow> pyfloat
     \<Rightarrow> bool" where
  "measured cf c k est s s' y elapsed \<longleftrightarrow>
     0 < n_samples cf
     \<and> (\<exists>st ys samples.
          st 0 = s \<and> st (nat (n_samples cf)) = s'
        \<and> (\<forall>j<nat (n_samples cf).
              predict (estimator cf) est (X_test (data cf)) (st j) = (Inr (ys j), st (Suc j)))
        \<and> y = ys (nat (n_samples cf) - 1)
        \<and> (py_float (n_samples cf) :: 'x exn + pyfloat) = Inr samples
        \<and> (py_truediv (py_sub (c s' (Suc k)) (c s k)) samples :: 'x exn + pyfloat)
            = Inr elapsed)"

text \<open>
  \<open>pass cf c k v s s' complexity score elapsed\<close>: a whole pass for the value \<open>v\<close>, from
  library state \<open>s\<close> to \<open>s'\<close>: the estimator is constructed and fitted, its predictions
  are timed, and the performance computer, given the test labels and the last prediction,
  returns \<open>score\<close>.
\<close>

definition pass ::
  "('e, 'a, 's, 'x) conf \<Rightarrow> ('s \<Rightarrow> nat \<Rightarrow> pyfloat) \<Rightarrow> nat \<Rightarrow> pyval \<Rightarrow> 's \<Rightarrow> 's
     \<Rightarrow> int \<Rightarrow> pyfloat \<Rightarrow> pyfloat \<Rightarrow> bool" where
  "pass cf c k v s s' complexity score elapsed \<longleftrightarrow>
     (\<exists>est s1 s2 y.
        fitted cf v s est complexity s1
      \<and> measured cf c k est s1 s2 y elapsed
      \<and> prediction_performance_computer cf (y_test (data cf)) y s2 = (Inr score, s'))"

text \<open>
  \<open>grown go X y clf i s s' err\<close>: one step of the tracker for the size \<open>i\<close>, from library
  state \<open>s\<close> to \<open>s'\<close>: the size is set, the forest is fitted, and \<open>err\<close> is the float
  \<open>1.0\<close> minus the out-of-bag score the fitted forest then has.
\<close>

definition grown ::
  "('e, 'a, 's, 'x) forest_api \<Rightarrow> 'a \<Rightarrow> 'a \<Rightarrow> 'e \<Rightarrow> int \<Rightarrow> 's \<Rightarrow> 's \<Rightarrow> pyfloat \<Rightarrow> bool" where
  "grown go X y clf i s s' err \<longleftrightarrow>
     (\<exists>s1 score.
        set_params go clf i s = (Inr (), s1)
      \<and> fit_forest go clf X y s1 = (Inr (), s')
      \<and> oob_score go clf s' = Inr score
      \<and> err = py_sub (Finite 1) score)"

section \<open>Two runs compared\<close>

text \<open>
  \<open>same_results R out1 out2\<close>: two outcomes raise the same exception or return values
  related by \<open>R\<close>, and leave the library in the same state. \<open>same_locals\<close> relates the
  local variables of two runs up to the recorded latencies.
\<close>

definition same_results ::
  "('r \<Rightarrow> 'r \<Rightarrow> bool) \<Rightarrow> ('x exn + 'r) \<times> ('a, 's, 'x) world
     \<Rightarrow> ('x exn + 'r) \<times> ('a, 's, 'x) world \<Rightarrow> bool" where
  "same_results R out1 out2 =
     (case (out1, out2) of
        ((Inl e1, w1), (Inl e2, w2)) \<Rightarrow> e1 = e2 \<and> lib w1 = lib w2
      | ((Inr a, w1), (Inr b, w2)) \<Rightarrow> R a b \<and> lib w1 = lib w2
      | _ \<Rightarrow> False)"

definition same_locals :: "'a locals \<Rightarrow> 'a locals \<Rightarrow> bool" where
  "same_locals l1 l2 \<longleftrightarrow>
     prediction_powers l1 = prediction_powers l2 \<and> complexities l1 = complexities l2
     \<and> y_pred l1 = y_pred l2"

section \<open>A small library to run the notebooks on\<close>

text \<open>
  An estimator whose object is its one integer hyperparameter \<open>k\<close>: the constructor
  wants \<open>k\<close> among its keyword arguments, \<open>fit\<close> wants as many labels as rows, \<open>predict\<close>
  scales the inputs by \<open>k\<close>; the library state counts the calls of \<open>fit\<close> and \<open>predict\<close>.
\<close>

definition toy_class :: "(int, int list, nat, string) estimator_class" where
  "toy_class =
     \<lparr>class_name = ''Toy'',
      init = (\<lambda>kwargs s. case kwargs ''k'' of
                Some (PyInt k) \<Rightarrow> (Inr k, s)
              | _ \<Rightarrow> (Inl (LibraryError ''TypeError''), s)),
      fit = (\<lambda>k X y s. if length X = length y then (Inr (), Suc s)
                        else (Inl (LibraryError ''ValueError''), s)),
      predict = (\<lambda>k X s. (Inr (map (\<lambda>v. v * k) X), Suc s))\<rparr>"

definition toy_data :: "int list dataset" where
  "toy_data = \<lparr>X_train = [1, 2], X_test = [3], y_train = [1, 2], y_test = [3]\<rparr>"

definition toy_conf :: "(int, int list, nat, string) conf" where
  "toy_conf =
     \<lparr>estimator = toy_class,
      tuned_params = [''bias'' \<mapsto> PyBool True],
      changing_param = ''k'',
      changing_param_values = [PyInt 1, PyInt 2],
      complexity_label = ''k'',
      complexity_computer = (\<lambda>k s. (Inr k, s)),
      prediction_performance_computer =
        (\<lambda>y_true y_hat s.
           (Inr (Finite (real (length (filter (\<lambda>(a, b). a \<noteq> b) (zip y_true y_hat))))), s)),
      prediction_performance_label = ''mismatches'',
      postfit_hook = (\<lambda>k s. (Inr (), s)),
      data = toy_data,
      n_samples = 3\<rparr>"

text \<open>A clock that advances by one second from one reading to the next.\<close>

definition toy_world :: "(int list, nat, string) world" where
  "toy_world = \<lparr>lib = 0, clock = (\<lambda>s k. Finite (real k)), ticks = 0, trace = []\<rparr>"

text \<open>The same configuration with nothing to sweep over.\<close>

definition toy_conf_empty :: "(int, int list, nat, string) conf" where
  "toy_conf_empty = toy_conf\<lparr>changing_param_values := []\<rparr>"

text \<open>
  The same configuration with training labels that do not match the rows, so that \<open>fit\<close>
  raises, and with an estimator whose \<open>predict\<close> raises once \<open>k\<close> is \<open>2\<close>.
\<close>

definition toy_conf_bad_fit :: "(int, int list, nat, string) conf" where
  "toy_conf_bad_fit = toy_conf\<lparr>data := toy_data\<lparr>y_train := [1]\<rparr>\<rparr>"

definition toy_conf_bad_predict :: "(int, int list, nat, string) conf" where
  "toy_conf_bad_predict =
     toy_conf\<lparr>estimator := toy_class\<lparr>predict :=
       (\<lambda>k X s. if k = 2 then (Inl (LibraryError ''MemoryError''), s)
                 else (Inr (map (\<lambda>v. v * k) X), Suc s))\<rparr>\<rparr>"

text \<open>A second run of the script: the same library state, a later and slower clock.\<close>

definition toy_world_later :: "(int list, nat, string) world" where
  "toy_world_later =
     \<lparr>lib = 0, clock = (\<lambda>s k. Finite (5 * real k + 100)), ticks = 7, trace = []\<rparr>"

text \<open>
  A forest whose object is a name and whose state is the number of trees asked for; its
  out-of-bag score is the double nearest to \<open>0.1\<close> for an odd number of trees and \<open>0.25\<close>
  for an even one, and the attribute is missing before any tree is asked for.
\<close>

definition toy_forest :: "(string, int list, int, string) forest_api" where
  "toy_forest =
     \<lparr>set_params = (\<lambda>clf i s. (Inr (), i)),
      fit_forest = (\<lambda>clf X y s. if length X = length y then (Inr (), s)
                                 else (Inl (LibraryError ''ValueError''), s)),
      oob_score = (\<lambda>clf s. if s = 0 then Inl (LibraryError ''AttributeError'')
                            else if odd s then Inr (Finite (3602879701896397 / 2 ^ 55))
                            else Inr (Finite (1 / 4)))\<rparr>"

definition toy_ensemble :: "(string \<times> string) list" where
  "toy_ensemble = ensemble_clfs ''sqrt'' ''log2'' ''none''"

text \<open>
  A charting library that makes no use of its state: a trace is its keyword arguments,
  refused when the two series differ in length; a layout is its keyword arguments; a
  figure is the pair of the traces and the layout.
\<close>

definition toy_chart :: "(scatter, layout, scatter list \<times> layout, 'g, string) chart_api" where
  "toy_chart =
     \<lparr>go_Scatter = (\<lambda>kwargs g.
        if length (scatter_x kwargs) = length (scatter_y kwargs) then (Inr kwargs, g)
        else (Inl (LibraryError ''ValueError''), g)),
      go_Layout = (\<lambda>kwargs g. (Inr kwargs, g)),
      go_Figure = (\<lambda>traces lay g. (Inr (traces, lay), g))\<rparr>"

section \<open>Executing the loop body\<close>

lemma and_then_Inr:
  "and_then m f w = (Inr r, w') \<longleftrightarrow> (\<exists>a w1. m w = (Inr a, w1) \<and> f a w1 = (Inr r, w'))"
  by (auto simp: and_then_def split: prod.splits sum.splits)

lemma call_Inr:
  "call ev f w = (Inr r, w') \<longleftrightarrow>
     (\<exists>s'. f (lib w) = (Inr r, s') \<and> w' = w\<lparr>lib := s', trace := trace w @ [ev]\<rparr>)"
  by (auto simp: call_def split: prod.splits sum.splits)

lemma time_time_Inr:
  "time_time w = (Inr t, w') \<longleftrightarrow>
     (t = clock w (lib w) (ticks w)
      \<and> w' = w\<lparr>ticks := Suc (ticks w),
               trace := trace w @ [Time (clock w (lib w) (ticks w))]\<rparr>)"
  by (auto simp: time_time_def)

lemma print_Inr:
  "print w = (Inr u, w') \<longleftrightarrow> w' = w\<lparr>trace := trace w @ [Stdout]\<rparr>"
  by (auto simp: print_def)

lemma evaluate_Inr:
  "evaluate r w = (Inr v, w') \<longleftrightarrow> (r = Inr v \<and> w' = w)"
  by (auto simp: evaluate_def raise_def return_def split: sum.splits)

lemma read_local_Inr:
  "read_local v w = (Inr y, w') \<longleftrightarrow> (v = Some y \<and> w' = w)"
  by (auto simp: read_local_def raise_def return_def split: option.splits)

lemma return_Inr: "return r w = (Inr r', w') \<longleftrightarrow> (r' = r \<and> w' = w)"
  by (auto simp: return_def)

text \<open>
  The prediction loop that returns has made its \<open>k\<close> calls of \<open>predict\<close>, each from the
  library state the one before left.
\<close>

lemma predict_loop_Inr:
  "predict_loop k p X yp w = (Inr yp', w') \<Longrightarrow>
     ticks w' = ticks w \<and> clock w' = clock w
     \<and> (k = 0 \<longrightarrow> yp' = yp)
     \<and> (\<exists>st ys. st 0 = lib w \<and> st k = lib w'
           \<and> (\<forall>j<k. p (st j) = (Inr (ys j), st (Suc j)))
           \<and> (0 < k \<longrightarrow> yp' = Some (ys (k - 1))))"
proof (induction k arbitrary: yp w)
  case 0
  then show ?case by auto
next
  case (Suc k)
  from Suc.prems obtain y w1 where
    c: "call (Predict X) p w = (Inr y, w1)" and r: "predict_loop k p X (Some y) w1 = (Inr yp', w')"
    by (auto split: prod.splits sum.splits)
  from c have w1: "p (lib w) = (Inr y, lib w1)" "ticks w1 = ticks w" "clock w1 = clock w"
    by (auto simp: call_Inr)
  from Suc.IH [OF r] obtain st ys where
    ih: "ticks w' = ticks w1" "clock w' = clock w1" "k = 0 \<longrightarrow> yp' = Some y"
      "st 0 = lib w1" "st k = lib w'" "\<forall>j<k. p (st j) = (Inr (ys j), st (Suc j))"
      "0 < k \<longrightarrow> yp' = Some (ys (k - 1))"
    by blast
  let ?st = "\<lambda>j. case j of 0 \<Rightarrow> lib w | Suc i \<Rightarrow> st i"
  let ?ys = "\<lambda>j. case j of 0 \<Rightarrow> y | Suc i \<Rightarrow> ys i"
  have chain: "\<forall>j<Suc k. p (?st j) = (Inr (?ys j), ?st (Suc j))"
  proof (intro allI impI)
    fix j assume "j < Suc k"
    then show "p (?st j) = (Inr (?ys j), ?st (Suc j))"
      using w1(1) ih(4,6) by (cases j) auto
  qed
  have last: "yp' = Some (?ys (Suc k - 1))"
    using ih(3,7) by (cases k) auto
  have "?st 0 = lib w \<and> ?st (Suc k) = lib w'
           \<and> (\<forall>j<Suc k. p (?st j) = (Inr (?ys j), ?st (Suc j)))
           \<and> (0 < Suc k \<longrightarrow> yp' = Some (?ys (Suc k - 1)))"
    using chain last ih(5) by simp
  then have "\<exists>st ys. st 0 = lib w \<and> st (Suc k) = lib w'
           \<and> (\<forall>j<Suc k. p (st j) = (Inr (ys j), st (Suc j)))
           \<and> (0 < Suc k \<longrightarrow> yp' = Some (ys (Suc k - 1)))"
    by blast
  with ih(1,2) w1(2,3) show ?case by simp
qed

text \<open>A loop body that returns went through every call of the body, in order.\<close>

lemma benchmark_body_InrE:
  fixes cf :: "('e, 'a, 's, 'x) conf"
  assumes "benchmark_body cf loc w = (Inr loc', w')"
  obtains est s1 s2 s3 c s4 w5 samples t y sc s6 where
    "init (estimator cf) (tuned_params cf) (lib w) = (Inr est, s1)"
    "fit (estimator cf) est (X_train (data cf)) (y_train (data cf)) s1 = (Inr (), s2)"
    "postfit_hook cf est s2 = (Inr (), s3)"
    "complexity_computer cf est s3 = (Inr c, s4)"
    "predict_loop (nat (n_samples cf)) (predict (estimator cf) est (X_test (data cf)))
       (X_test (data cf)) (y_pred loc)
       (w\<lparr>lib := s4, ticks := Suc (ticks w),
          trace := trace w @ [Construct, Stdout, Fit (X_train (data cf)) (y_train (data cf)),
                     PostfitHook, ComplexityComputer, Time (clock w s4 (ticks w))]\<rparr>)
     = (Inr (Some y), w5)"
    "(py_float (n_samples cf) :: 'x exn + pyfloat) = Inr samples"
    "(py_truediv (py_sub (clock w5 (lib w5) (ticks w5)) (clock w s4 (ticks w))) samples
        :: 'x exn + pyfloat) = Inr t"
    "loc' = \<lparr>prediction_times = prediction_times loc @ [t],
            prediction_powers = prediction_powers loc @ [sc],
            complexities = complexities loc @ [c], y_pred = Some y\<rparr>"
    "w' = w5\<lparr>ticks := Suc (ticks w5), lib := s6,
             trace := trace w5 @ [Time (clock w5 (lib w5) (ticks w5)),
                        PerformanceComputer (y_test (data cf)) y, Stdout]\<rparr>"
    "prediction_performance_computer cf (y_test (data cf)) y (lib w5) = (Inr sc, s6)"
proof -
  from assms show thesis
    unfolding benchmark_body_def
    by (clarsimp simp: and_then_Inr call_Inr time_time_Inr print_Inr evaluate_Inr
          read_local_Inr return_Inr)
       (rule that; assumption)
qed

lemma divisor_nonzero:
  assumes "(py_float n :: 'x exn + pyfloat) = Inr d"
    and "(py_truediv a d :: 'x exn + pyfloat) = Inr r"
  shows "n \<noteq> 0"
proof
  assume "n = 0"
  with assms(1) have "d = Finite 0"
    by (simp add: py_float_def round_double_def)
  with assms(2) show False by simp
qed

lemma benchmark_body_pass:
  fixes cf :: "('e, 'a, 's, 'x) conf"
  assumes body: "benchmark_body (cf\<lparr>tuned_params := (tuned_params cf)(changing_param cf \<mapsto> v)\<rparr>)
             loc w = (Inr loc', w')"
    and yp: "y_pred loc \<noteq> None \<longrightarrow> 0 < n_samples cf"
  shows "\<exists>c p t. complexities loc' = complexities loc @ [c]
           \<and> prediction_powers loc' = prediction_powers loc @ [p]
           \<and> prediction_times loc' = prediction_times loc @ [t]
           \<and> y_pred loc' \<noteq> None \<and> 0 < n_samples cf
           \<and> ticks w' = ticks w + 2 \<and> clock w' = clock w
           \<and> pass cf (clock w) (ticks w) v (lib w) (lib w') c p t"
proof -
  let ?cf = "cf\<lparr>tuned_params := (tuned_params cf)(changing_param cf \<mapsto> v)\<rparr>"
  from body obtain est s1 s2 s3 c s4 w5 samples t y sc s6 where
    init: "init (estimator ?cf) (tuned_params ?cf) (lib w) = (Inr est, s1)"
    and fit: "fit (estimator ?cf) est (X_train (data ?cf)) (y_train (data ?cf)) s1 = (Inr (), s2)"
    and hook: "postfit_hook ?cf est s2 = (Inr (), s3)"
    and cc: "complexity_computer ?cf est s3 = (Inr c, s4)"
    and loop: "predict_loop (nat (n_samples ?cf)) (predict (estimator ?cf) est (X_test (data ?cf)))
       (X_test (data ?cf)) (y_pred loc)
       (w\<lparr>lib := s4, ticks := Suc (ticks w),
          trace := trace w @ [Construct, Stdout, Fit (X_train (data ?cf)) (y_train (data ?cf)),
                     PostfitHook, ComplexityComputer, Time (clock w s4 (ticks w))]\<rparr>)
     = (Inr (Some y), w5)"
    and samples: "(py_float (n_samples ?cf) :: 'x exn + pyfloat) = Inr samples"
    and quot: "(py_truediv (py_sub (clock w5 (lib w5) (ticks w5)) (clock w s4 (ticks w))) samples
                 :: 'x exn + pyfloat) = Inr t"
    and loc': "loc' = \<lparr>prediction_times = prediction_times loc @ [t],
            prediction_powers = prediction_powers loc @ [sc],
            complexities = complexities loc @ [c], y_pred = Some y\<rparr>"
    and w': "w' = w5\<lparr>ticks := Suc (ticks w5), lib := s6,
             trace := trace w5 @ [Time (clock w5 (lib w5) (ticks w5)),
                        PerformanceComputer (y_test (data ?cf)) y, Stdout]\<rparr>"
    and perf: "prediction_performance_computer ?cf (y_test (data ?cf)) y (lib w5) = (Inr sc, s6)"
    by (rule benchmark_body_InrE)
  from predict_loop_Inr [OF loop] obtain st ys where
    w5: "ticks w5 = Suc (ticks w)" "clock w5 = clock w"
    and stale: "nat (n_samples cf) = 0 \<longrightarrow> Some y = y_pred loc"
    and chain: "st 0 = s4" "st (nat (n_samples cf)) = lib w5"
      "\<forall>j<nat (n_samples cf).
         predict (estimator cf) est (X_test (data cf)) (st j) = (Inr (ys j), st (Suc j))"
    and res: "0 < nat (n_samples cf) \<longrightarrow> Some y = Some (ys (nat (n_samples cf) - 1))"
    by auto
  from divisor_nonzero [OF samples quot] have "n_samples cf \<noteq> 0" by simp
  have pos: "0 < n_samples cf"
  proof (rule ccontr)
    assume "\<not> 0 < n_samples cf"
    with \<open>n_samples cf \<noteq> 0\<close> have "nat (n_samples cf) = 0" "\<not> 0 < n_samples cf" by auto
    with stale yp show False by auto
  qed
  with res have y: "y = ys (nat (n_samples cf) - 1)" by simp
  have f: "fitted cf v (lib w) est c s4"
    unfolding fitted_def using init fit hook cc by auto
  have m: "measured cf (clock w) (ticks w) est s4 (lib w5) y t"
    unfolding measured_def
  proof (intro conjI exI)
    show "0 < n_samples cf" by (rule pos)
    show "st 0 = s4" by (rule chain(1))
    show "st (nat (n_samples cf)) = lib w5" by (rule chain(2))
    show "\<forall>j<nat (n_samples cf).
         predict (estimator cf) est (X_test (data cf)) (st j) = (Inr (ys j), st (Suc j))"
      by (rule chain(3))
    show "y = ys (nat (n_samples cf) - 1)" by (rule y)
    show "(py_float (n_samples cf) :: 'x exn + pyfloat) = Inr samples"
      using samples by simp
    show "(py_truediv (py_sub (clock w (lib w5) (Suc (ticks w))) (clock w s4 (ticks w))) samples
             :: 'x exn + pyfloat) = Inr t"
      using quot w5 by simp
  qed
  have "pass cf (clock w) (ticks w) v (lib w) (lib w') c sc t"
    unfolding pass_def using f m perf w' by auto
  then show ?thesis
    using loc' w' w5 pos by simp
qed

section \<open>The loop over the parameter values\<close>

lemma pass_tuned:
  "pass (cf\<lparr>tuned_params := (tuned_params cf)(changing_param cf \<mapsto> x)\<rparr>) = pass cf"
  by (simp add: pass_def fitted_def measured_def fun_eq_iff)

lemma sweep_passes:
  assumes "sweep vs cf loc w = (Inr loc', cf', w')"
    and "y_pred loc \<noteq> None \<longrightarrow> 0 < n_samples cf"
  shows "\<exists>cs ps ts S.
           complexities loc' = complexities loc @ cs
         \<and> prediction_powers loc' = prediction_powers loc @ ps
         \<and> prediction_times loc' = prediction_times loc @ ts
         \<and> length cs = length vs \<and> length ps = length vs \<and> length ts = length vs
         \<and> S 0 = lib w \<and> S (length vs) = lib w'
         \<and> ticks w' = ticks w + 2 * length vs \<and> clock w' = clock w
         \<and> (vs \<noteq> [] \<longrightarrow> 0 < n_samples cf)
         \<and> (\<forall>i<length vs.
               pass cf (clock w) (ticks w + 2 * i) (vs ! i) (S i) (S (Suc i))
                 (cs ! i) (ps ! i) (ts ! i))"
  using assms
proof (induction vs arbitrary: cf loc w)
  case Nil
  then have "loc' = loc" "w' = w" by simp_all
  then show ?case by (auto intro: exI [of _ "\<lambda>_. lib w"])
next
  case (Cons v vs)
  let ?cf1 = "cf\<lparr>tuned_params := (tuned_params cf)(changing_param cf \<mapsto> v)\<rparr>"
  from Cons.prems(1) obtain loc1 w1 where
    body: "benchmark_body ?cf1 loc w = (Inr loc1, w1)"
    and rest: "sweep vs ?cf1 loc1 w1 = (Inr loc', cf', w')"
    by (auto simp: Let_def split: prod.splits sum.splits)
  from benchmark_body_pass [OF body Cons.prems(2)] obtain c p t where
    b: "complexities loc1 = complexities loc @ [c]"
      "prediction_powers loc1 = prediction_powers loc @ [p]"
      "prediction_times loc1 = prediction_times loc @ [t]"
      "y_pred loc1 \<noteq> None" "0 < n_samples cf"
      "ticks w1 = ticks w + 2" "clock w1 = clock w"
      "pass cf (clock w) (ticks w) v (lib w) (lib w1) c p t"
    by blast
  from b(5) have yp1: "y_pred loc1 \<noteq> None \<longrightarrow> 0 < n_samples ?cf1" by simp
  from Cons.IH [OF rest yp1] obtain cs ps ts S where
    ih: "complexities loc' = complexities loc1 @ cs"
      "prediction_powers loc' = prediction_powers loc1 @ ps"
      "prediction_times loc' = prediction_times loc1 @ ts"
      "length cs = length vs" "length ps = length vs" "length ts = length vs"
      "S 0 = lib w1" "S (length vs) = lib w'"
      "ticks w' = ticks w1 + 2 * length vs" "clock w' = clock w1"
      "\<forall>i<length vs. pass ?cf1 (clock w1) (ticks w1 + 2 * i) (vs ! i) (S i) (S (Suc i))
                 (cs ! i) (ps ! i) (ts ! i)"
    by blast
  let ?S = "\<lambda>i. case i of 0 \<Rightarrow> lib w | Suc j \<Rightarrow> S j"
  have passes: "\<forall>i<length (v # vs).
      pass cf (clock w) (ticks w + 2 * i) ((v # vs) ! i) (?S i) (?S (Suc i))
        ((c # cs) ! i) ((p # ps) ! i) ((t # ts) ! i)"
  proof (intro allI impI)
    fix i assume i: "i < length (v # vs)"
    show "pass cf (clock w) (ticks w + 2 * i) ((v # vs) ! i) (?S i) (?S (Suc i))
        ((c # cs) ! i) ((p # ps) ! i) ((t # ts) ! i)"
    proof (cases i)
      case 0
      with b(8) ih(7) show ?thesis by simp
    next
      case (Suc j)
      with i ih(11) have "pass ?cf1 (clock w1) (ticks w1 + 2 * j) (vs ! j) (S j) (S (Suc j))
                 (cs ! j) (ps ! j) (ts ! j)" by simp
      with Suc b(6,7) show ?thesis by (simp add: pass_tuned)
    qed
  qed
  have "complexities loc' = complexities loc @ (c # cs)
         \<and> prediction_powers loc' = prediction_powers loc @ (p # ps)
         \<and> prediction_times loc' = prediction_times loc @ (t # ts)
         \<and> length (c # cs) = length (v # vs) \<and> length (p # ps) = length (v # vs)
         \<and> length (t # ts) = length (v # vs)
         \<and> ?S 0 = lib w \<and> ?S (length (v # vs)) = lib w'
         \<and> ticks w' = ticks w + 2 * length (v # vs) \<and> clock w' = clock w
         \<and> (v # vs \<noteq> [] \<longrightarrow> 0 < n_samples cf)
         \<and> (\<forall>i<length (v # vs).
               pass cf (clock w) (ticks w + 2 * i) ((v # vs) ! i) (?S i) (?S (Suc i))
                 ((c # cs) ! i) ((p # ps) ! i) ((t # ts) ! i))"
    using b ih passes by simp
  then show ?case by blast
qed

lemma sweep_append:
  "sweep (xs @ ys) cf loc w =
     (case sweep xs cf loc w of
        (Inl e, cf', w') \<Rightarrow> (Inl e, cf', w')
      | (Inr loc', cf', w') \<Rightarrow> sweep ys cf' loc' w')"
  by (induction xs arbitrary: cf loc w) (auto simp: Let_def split: prod.splits sum.splits)

lemma sweep_frame:
  "sweep vs cf loc w = (r, cf', w') \<Longrightarrow> cf' = cf\<lparr>tuned_params := tuned_params cf'\<rparr>"
proof (induction vs arbitrary: cf loc w)
  case Nil
  then show ?case by simp
next
  case (Cons v vs)
  let ?cf1 = "cf\<lparr>tuned_params := (tuned_params cf)(changing_param cf \<mapsto> v)\<rparr>"
  show ?case
  proof (cases "benchmark_body ?cf1 loc w")
    case (Pair res w1)
    show ?thesis
    proof (cases res)
      case (Inl e)
      with Pair Cons.prems have "cf' = ?cf1" by (simp add: Let_def)
      then show ?thesis by (simp add: fun_upd_def)
    next
      case (Inr loc1)
      with Pair Cons.prems have "sweep vs ?cf1 loc1 w1 = (r, cf', w')" by (simp add: Let_def)
      from Cons.IH [OF this] have "cf' = ?cf1\<lparr>tuned_params := tuned_params cf'\<rparr>" .
      then show ?thesis by simp
    qed
  qed
qed

lemma benchmark_body_values:
  "benchmark_body (cf\<lparr>changing_param_values := l, tuned_params := t\<rparr>)
     = benchmark_body (cf\<lparr>tuned_params := t\<rparr>)"
  by (simp add: benchmark_body_def fun_eq_iff)

lemma sweep_values:
  "sweep vs (cf\<lparr>changing_param_values := l\<rparr>) loc w =
     (case sweep vs cf loc w of (r, cf', w') \<Rightarrow> (r, cf'\<lparr>changing_param_values := l\<rparr>, w'))"
proof (induction vs arbitrary: cf loc w)
  case Nil
  then show ?case by simp
next
  case (Cons v vs)
  let ?t = "(tuned_params cf)(changing_param cf \<mapsto> v)"
  have swap: "cf\<lparr>changing_param_values := l, tuned_params := ?t\<rparr>
                = (cf\<lparr>tuned_params := ?t\<rparr>)\<lparr>changing_param_values := l\<rparr>"
    by simp
  show ?case
    by (simp add: Let_def benchmark_body_values del: fun_upd_apply split: prod.splits sum.splits)
       (simp only: swap Cons.IH, simp)
qed

lemma sweep_tuned_params:
  "sweep vs cf loc w = (r, cf', w') \<Longrightarrow>
     (vs = [] \<longrightarrow> tuned_params cf' = tuned_params cf)
     \<and> (vs \<noteq> [] \<longrightarrow> (\<exists>v\<in>set vs. tuned_params cf' = (tuned_params cf)(changing_param cf \<mapsto> v)))
     \<and> (\<forall>l. r = Inr l \<longrightarrow> vs \<noteq> [] \<longrightarrow>
           tuned_params cf' = (tuned_params cf)(changing_param cf \<mapsto> last vs))"
proof (induction vs arbitrary: cf loc w)
  case Nil
  then show ?case by simp
next
  case (Cons v vs)
  let ?cf1 = "cf\<lparr>tuned_params := (tuned_params cf)(changing_param cf \<mapsto> v)\<rparr>"
  show ?case
  proof (cases "benchmark_body ?cf1 loc w")
    case (Pair res w1)
    show ?thesis
    proof (cases res)
      case (Inl e)
      with Pair Cons.prems have "cf' = ?cf1" "r = Inl e" by (simp_all add: Let_def)
      then show ?thesis by (simp del: fun_upd_apply)
    next
      case (Inr loc1)
      with Pair Cons.prems have rest: "sweep vs ?cf1 loc1 w1 = (r, cf', w')"
        by (simp add: Let_def)
      from Cons.IH [OF rest] show ?thesis
        by (cases "vs = []") (auto simp del: fun_upd_apply)
    qed
  qed
qed

lemma benchmark_influence_InrD:
  assumes "benchmark_influence cf w = (Inr (powers, latencies, cs), cf', w')"
  obtains loc where
    "sweep (changing_param_values cf) cf
       \<lparr>prediction_times = [], prediction_powers = [], complexities = [], y_pred = None\<rparr> w
     = (Inr loc, cf', w')"
    "powers = prediction_powers loc" "latencies = prediction_times loc" "cs = complexities loc"
  using assms by (auto simp: benchmark_influence_def split: prod.splits sum.splits)


section \<open>Running the small library\<close>

text \<open>The double arithmetic the small runs need, computed once.\<close>

lemma float_three: "(py_float 3 :: string exn + pyfloat) = Inr (Finite 3)"
  by code_simp

lemma sub_1_0: "py_sub (Finite 1) (Finite 0) = Finite 1"
  by code_simp

lemma sub_3_2: "py_sub (Finite 3) (Finite 2) = Finite 1"
  by code_simp

lemma third: "(py_truediv (Finite 1) (Finite 3) :: string exn + pyfloat)
    = Inr (Finite (6004799503160661 / 2 ^ 54))"
  by code_simp

lemmas toy_defs = toy_conf_def toy_class_def toy_data_def toy_world_def

lemmas run_defs = benchmark_influence_def benchmark_body_def and_then_def call_def time_time_def
  print_def evaluate_def read_local_def return_def raise_def

lemma toy_run:
  "fst (benchmark_influence toy_conf toy_world)
     = Inr ([Finite 0, Finite 1],
            [Finite (6004799503160661 / 2 ^ 54), Finite (6004799503160661 / 2 ^ 54)], [1, 2])"
  by (simp add: toy_defs run_defs eval_nat_numeral float_three sub_1_0 sub_3_2 third
        del: py_sub.simps py_truediv.simps)


lemma toy_run_triple:
  "benchmark_influence toy_conf toy_world
     = (Inr ([Finite 0, Finite 1],
             [Finite (6004799503160661 / 2 ^ 54), Finite (6004799503160661 / 2 ^ 54)], [1, 2]),
        fst (snd (benchmark_influence toy_conf toy_world)),
        snd (snd (benchmark_influence toy_conf toy_world)))"
  using toy_run by (simp add: prod_eq_iff)

lemma toy_values: "changing_param_values toy_conf = [PyInt 1, PyInt 2]"
  by (simp add: toy_conf_def)

section \<open>The sweep returns aligned sequences\<close>

text \<open>
  C1. When \<open>benchmark_influence\<close> returns, the three sequences it returns (prediction
  errors, prediction latencies, complexities) each have the length of the configuration's
  list of parameter values, and entry \<open>i\<close> belongs to value \<open>i\<close>: the library went through
  states \<open>S 0\<close>, ..., \<open>S n\<close> from the one before the call to the one after it, and between
  \<open>S i\<close> and \<open>S (i + 1)\<close> an estimator was constructed with the changing parameter set to
  value \<open>i\<close>, fitted on the training split, measured on the test split and scored against
  the test labels; complexity \<open>i\<close> is what the complexity computer returned for that
  estimator, latency \<open>i\<close> what was measured around its predictions, error \<open>i\<close> what the
  performance computer returned for its last prediction. Moreover, for every \<open>k\<close>, the
  first \<open>k\<close> entries of the three sequences are exactly what the sweep over the first
  \<open>k\<close> values returns from the same starting world.
\<close>

theorem benchmark_influence_lengths:
  assumes "benchmark_influence cf w = (Inr (powers, latencies, cs), cf', w')"
  shows "length powers = length (changing_param_values cf)
       \<and> length latencies = length (changing_param_values cf)
       \<and> length cs = length (changing_param_values cf)
       \<and> (\<exists>S. S 0 = lib w \<and> S (length (changing_param_values cf)) = lib w'
             \<and> (\<forall>i<length (changing_param_values cf).
                   pass cf (clock w) (ticks w + 2 * i) (changing_param_values cf ! i)
                     (S i) (S (Suc i)) (cs ! i) (powers ! i) (latencies ! i)))
       \<and> (\<forall>k\<le>length (changing_param_values cf). \<exists>cf'' w''.
            benchmark_influence (cf\<lparr>changing_param_values := take k (changing_param_values cf)\<rparr>) w
              = (Inr (take k powers, take k latencies, take k cs), cf'', w''))"
proof -
  let ?vs = "changing_param_values cf"
  let ?init = "\<lparr>prediction_times = [], prediction_powers = [], complexities = [],
                 y_pred = None\<rparr>"
  from assms obtain loc where run: "sweep ?vs cf ?init w = (Inr loc, cf', w')"
    and res: "powers = prediction_powers loc" "latencies = prediction_times loc"
      "cs = complexities loc"
    by (rule benchmark_influence_InrD)
  from sweep_passes [OF run] res have len: "length powers = length ?vs"
    "length latencies = length ?vs" "length cs = length ?vs"
    and chain: "\<exists>S. S 0 = lib w \<and> S (length ?vs) = lib w'
             \<and> (\<forall>i<length ?vs.
                   pass cf (clock w) (ticks w + 2 * i) (?vs ! i)
                     (S i) (S (Suc i)) (cs ! i) (powers ! i) (latencies ! i))"
    by auto
  have prefix: "\<exists>cf'' w''.
      benchmark_influence (cf\<lparr>changing_param_values := take k ?vs\<rparr>) w
        = (Inr (take k powers, take k latencies, take k cs), cf'', w'')" if k: "k \<le> length ?vs" for k
  proof -
    from run have "sweep (take k ?vs @ drop k ?vs) cf ?init w = (Inr loc, cf', w')" by simp
    then have "(case sweep (take k ?vs) cf ?init w of
                  (Inl e, cfk, wk) \<Rightarrow> (Inl e, cfk, wk)
                | (Inr lock, cfk, wk) \<Rightarrow> sweep (drop k ?vs) cfk lock wk) = (Inr loc, cf', w')"
      by (simp only: sweep_append)
    then obtain lock cfk wk where
      first: "sweep (take k ?vs) cf ?init w = (Inr lock, cfk, wk)"
      and second: "sweep (drop k ?vs) cfk lock wk = (Inr loc, cf', w')"
      by (auto split: prod.splits sum.splits)
    from sweep_passes [OF first] k have lk: "length (prediction_powers lock) = k"
      "length (prediction_times lock) = k" "length (complexities lock) = k"
      by auto
    have ypk: "y_pred lock \<noteq> None \<longrightarrow> 0 < n_samples cfk"
    proof (cases "take k ?vs = []")
      case True
      with first have "y_pred lock = None" by auto
      then show ?thesis by simp
    next
      case False
      with sweep_passes [OF first] have "0 < n_samples cf" by auto
      moreover from sweep_frame [OF first] have "n_samples cfk = n_samples cf"
        by (cases cf, cases cfk) simp
      ultimately show ?thesis by simp
    qed
    from sweep_passes [OF second ypk] obtain ts ps cs' where
      "prediction_times loc = prediction_times lock @ ts"
      "prediction_powers loc = prediction_powers lock @ ps"
      "complexities loc = complexities lock @ cs'" by blast
    with lk res have tk: "take k latencies = prediction_times lock"
      "take k powers = prediction_powers lock" "take k cs = complexities lock" by simp_all
    from first show ?thesis
      by (simp add: benchmark_influence_def sweep_values tk)
  qed
  from len chain prefix show ?thesis by blast
qed

theorem benchmark_influence_lengths_witness:
  "fst (benchmark_influence toy_conf toy_world)
     = Inr ([Finite 0, Finite 1],
            [Finite (6004799503160661 / 2 ^ 54), Finite (6004799503160661 / 2 ^ 54)], [1, 2])
   \<and> length (changing_param_values toy_conf) = 2
   \<and> (\<exists>S. S 0 = lib toy_world
        \<and> pass toy_conf (clock toy_world) 0 (PyInt 1) (S 0) (S 1)
            1 (Finite 0) (Finite (6004799503160661 / 2 ^ 54))
        \<and> pass toy_conf (clock toy_world) 2 (PyInt 2) (S 1) (S (2::nat))
            2 (Finite 1) (Finite (6004799503160661 / 2 ^ 54)))
   \<and> (\<exists>cf'' w''. benchmark_influence (toy_conf\<lparr>changing_param_values := [PyInt 1]\<rparr>) toy_world
         = (Inr ([Finite 0], [Finite (6004799503160661 / 2 ^ 54)], [1]), cf'', w''))"
proof -
  note run = toy_run_triple and vs = toy_values
  have w: "ticks toy_world = 0" by (simp add: toy_world_def)
  note t = benchmark_influence_lengths [OF run]
  from t obtain S where S: "S 0 = lib toy_world"
    "\<forall>i<2. pass toy_conf (clock toy_world) (2 * i) ([PyInt 1, PyInt 2] ! i) (S i) (S (Suc i))
        ([1, 2] ! i) ([Finite 0, Finite 1] ! i)
        ([Finite (6004799503160661 / 2 ^ 54), Finite (6004799503160661 / 2 ^ 54)] ! i)"
    by (auto simp: vs w)
  from S(2) have p0: "pass toy_conf (clock toy_world) 0 (PyInt 1) (S 0) (S 1)
            1 (Finite 0) (Finite (6004799503160661 / 2 ^ 54))"
    by (rule allE [of _ 0]) simp
  from S(2) have p1: "pass toy_conf (clock toy_world) 2 (PyInt 2) (S 1) (S (2::nat))
            2 (Finite 1) (Finite (6004799503160661 / 2 ^ 54))"
    by (rule allE [of _ 1]) (simp add: numeral_2_eq_2)
  from t have "\<forall>k\<le>2. \<exists>cf'' w''. benchmark_influence
        (toy_conf\<lparr>changing_param_values := take k [PyInt 1, PyInt 2]\<rparr>) toy_world
         = (Inr (take k [Finite 0, Finite 1],
                 take k [Finite (6004799503160661 / 2 ^ 54), Finite (6004799503160661 / 2 ^ 54)],
                 take k [1, 2]), cf'', w'')"
    by (simp add: vs)
  then have pre: "\<exists>cf'' w''. benchmark_influence
        (toy_conf\<lparr>changing_param_values := [PyInt 1]\<rparr>) toy_world
         = (Inr ([Finite 0], [Finite (6004799503160661 / 2 ^ 54)], [1]), cf'', w'')"
    by (rule allE [of _ 1]) simp
  from S(1) p0 p1 have "\<exists>S. S 0 = lib toy_world
        \<and> pass toy_conf (clock toy_world) 0 (PyInt 1) (S 0) (S 1)
            1 (Finite 0) (Finite (6004799503160661 / 2 ^ 54))
        \<and> pass toy_conf (clock toy_world) 2 (PyInt 2) (S 1) (S (2::nat))
            2 (Finite 1) (Finite (6004799503160661 / 2 ^ 54))"
    by blast
  with toy_run vs pre show ?thesis by simp
qed

section \<open>The recorded latency\<close>

text \<open>
  C5. When \<open>benchmark_influence\<close> returns, the latency recorded for value \<open>i\<close> is measured
  on the estimator fitted for value \<open>i\<close>: starting in the library state \<open>s1\<close> that the
  complexity computer left, \<open>predict\<close> was called on the test split exactly \<open>n_samples\<close>
  times, each call in the state the one before left, ending in \<open>s2\<close>; the latency is the
  clock reading taken in \<open>s2\<close> minus the clock reading taken in \<open>s1\<close>, divided by
  \<open>float(n_samples)\<close>, in double arithmetic; the performance computer then runs on the
  prediction of the last call, in \<open>s2\<close>. And \<open>n_samples\<close> is positive whenever there was
  a value to sweep over.
\<close>

theorem benchmark_influence_latency:
  assumes "benchmark_influence cf w = (Inr (powers, latencies, cs), cf', w')"
  shows "(changing_param_values cf \<noteq> [] \<longrightarrow> 0 < n_samples cf)
       \<and> (\<exists>S. S 0 = lib w \<and> S (length (changing_param_values cf)) = lib w'
             \<and> (\<forall>i<length (changing_param_values cf). \<exists>est s1 s2 y.
                   fitted cf (changing_param_values cf ! i) (S i) est (cs ! i) s1
                 \<and> measured cf (clock w) (ticks w + 2 * i) est s1 s2 y (latencies ! i)
                 \<and> prediction_performance_computer cf (y_test (data cf)) y s2
                     = (Inr (powers ! i), S (Suc i))))"
proof -
  from assms obtain loc where run: "sweep (changing_param_values cf) cf
       \<lparr>prediction_times = [], prediction_powers = [], complexities = [], y_pred = None\<rparr> w
     = (Inr loc, cf', w')"
    and res: "powers = prediction_powers loc" "latencies = prediction_times loc"
      "cs = complexities loc"
    by (rule benchmark_influence_InrD)
  from sweep_passes [OF run] res show ?thesis
    by (auto simp: pass_def)
qed


theorem benchmark_influence_latency_witness:
  "fst (benchmark_influence toy_conf toy_world)
     = Inr ([Finite 0, Finite 1],
            [Finite (6004799503160661 / 2 ^ 54), Finite (6004799503160661 / 2 ^ 54)], [1, 2])
   \<and> 0 < n_samples toy_conf
   \<and> (\<exists>S est s1 s2 y. S 0 = lib toy_world
        \<and> fitted toy_conf (PyInt 1) (S 0) est 1 s1
        \<and> measured toy_conf (clock toy_world) 0 est s1 s2 y (Finite (6004799503160661 / 2 ^ 54))
        \<and> prediction_performance_computer toy_conf (y_test (data toy_conf)) y s2
            = (Inr (Finite 0), S (Suc 0)))"
proof -
  note run = toy_run_triple and vs = toy_values
  have w: "ticks toy_world = 0" by (simp add: toy_world_def)
  note t = benchmark_influence_latency [OF run]
  from t have pos: "0 < n_samples toy_conf" by (simp add: vs)
  from t obtain S where S: "S 0 = lib toy_world"
    "\<forall>i<2. \<exists>est s1 s2 y.
        fitted toy_conf ([PyInt 1, PyInt 2] ! i) (S i) est ([1, 2] ! i) s1
      \<and> measured toy_conf (clock toy_world) (2 * i) est s1 s2 y
          ([Finite (6004799503160661 / 2 ^ 54), Finite (6004799503160661 / 2 ^ 54)] ! i)
      \<and> prediction_performance_computer toy_conf (y_test (data toy_conf)) y s2
          = (Inr ([Finite 0, Finite 1] ! i), S (Suc i))"
    by (auto simp: vs w)
  from S(2) have "\<exists>est s1 s2 y.
        fitted toy_conf (PyInt 1) (S 0) est 1 s1
      \<and> measured toy_conf (clock toy_world) 0 est s1 s2 y (Finite (6004799503160661 / 2 ^ 54))
      \<and> prediction_performance_computer toy_conf (y_test (data toy_conf)) y s2
          = (Inr (Finite 0), S (Suc 0))"
    by (rule allE [of _ 0]) simp
  with S(1) have "\<exists>S est s1 s2 y. S 0 = lib toy_world
        \<and> fitted toy_conf (PyInt 1) (S 0) est 1 s1
        \<and> measured toy_conf (clock toy_world) 0 est s1 s2 y (Finite (6004799503160661 / 2 ^ 54))
        \<and> prediction_performance_computer toy_conf (y_test (data toy_conf)) y s2
            = (Inr (Finite 0), S (Suc 0))"
    by blast
  with toy_run pos show ?thesis by simp
qed

section \<open>What the sweep does to the configuration\<close>

text \<open>
  C2, as the code has it. \<open>benchmark_influence\<close> leaves every field of the configuration
  other than the dictionary of fixed hyperparameters as it found it, and it writes to that
  dictionary: after the call the dictionary is the one before the call with the key of the
  changing parameter set to one of the listed values, the last one when the call returns.
  With no value to sweep over the dictionary is left as it is.
\<close>

theorem benchmark_influence_writes_tuned_params:
  assumes "benchmark_influence cf w = (res, cf', w')"
  shows "cf' = cf\<lparr>tuned_params := tuned_params cf'\<rparr>
       \<and> (changing_param_values cf = [] \<longrightarrow> tuned_params cf' = tuned_params cf)
       \<and> (changing_param_values cf \<noteq> [] \<longrightarrow>
            (\<exists>v\<in>set (changing_param_values cf).
               tuned_params cf' = (tuned_params cf)(changing_param cf \<mapsto> v)))
       \<and> (\<forall>r. res = Inr r \<longrightarrow> changing_param_values cf \<noteq> [] \<longrightarrow>
            tuned_params cf' = (tuned_params cf)(changing_param cf \<mapsto> last (changing_param_values cf)))"
proof -
  from assms obtain r where run: "sweep (changing_param_values cf) cf
       \<lparr>prediction_times = [], prediction_powers = [], complexities = [], y_pred = None\<rparr> w
     = (r, cf', w')" and r: "\<And>x. res = Inr x \<Longrightarrow> \<exists>l. r = Inr l"
    by (auto simp: benchmark_influence_def split: prod.splits sum.splits)
  from sweep_frame [OF run] sweep_tuned_params [OF run] r show ?thesis
    by blast
qed

theorem benchmark_influence_writes_tuned_params_witness:
  "tuned_params (fst (snd (benchmark_influence toy_conf toy_world)))
     = (tuned_params toy_conf)(''k'' \<mapsto> PyInt 2)
   \<and> fst (snd (benchmark_influence toy_conf toy_world))
     = toy_conf\<lparr>tuned_params := (tuned_params toy_conf)(''k'' \<mapsto> PyInt 2)\<rparr>"
proof -
  have cp: "changing_param toy_conf = ''k''"
    by (simp add: toy_conf_def)
  note t = benchmark_influence_writes_tuned_params [OF toy_run_triple]
  from t have frame: "fst (snd (benchmark_influence toy_conf toy_world))
      = toy_conf\<lparr>tuned_params := tuned_params (fst (snd (benchmark_influence toy_conf toy_world)))\<rparr>"
    by (rule conjunct1)
  from t have last: "tuned_params (fst (snd (benchmark_influence toy_conf toy_world)))
      = (tuned_params toy_conf)(''k'' \<mapsto> PyInt 2)"
    by (simp add: toy_values cp del: fun_upd_apply)
  from frame have "fst (snd (benchmark_influence toy_conf toy_world))
      = toy_conf\<lparr>tuned_params := (tuned_params toy_conf)(''k'' \<mapsto> PyInt 2)\<rparr>"
    unfolding last .
  with last show ?thesis by (simp del: fun_upd_apply)
qed

text \<open>
  C2 as the specification states it, that every field of the configuration is unchanged
  after the sweep, fails: the small configuration has no entry for \<open>k\<close> before the call
  and has one after it.
\<close>

theorem benchmark_influence_writes_tuned_params_counterexample:
  "tuned_params toy_conf ''k'' = None
   \<and> tuned_params (fst (snd (benchmark_influence toy_conf toy_world))) ''k'' = Some (PyInt 2)
   \<and> fst (snd (benchmark_influence toy_conf toy_world)) \<noteq> toy_conf"
proof -
  have a: "tuned_params toy_conf ''k'' = None"
    by (simp add: toy_conf_def)
  have b: "tuned_params (fst (snd (benchmark_influence toy_conf toy_world))) ''k'' = Some (PyInt 2)"
    by (simp add: toy_defs run_defs eval_nat_numeral float_three sub_1_0 sub_3_2 third
        del: py_sub.simps py_truediv.simps)
  from a b have "fst (snd (benchmark_influence toy_conf toy_world)) \<noteq> toy_conf"
    by auto
  with a b show ?thesis by simp
qed
section \<open>The dataset split is only read\<close>

text \<open>
  C8. \<open>benchmark_influence\<close> leaves the split of the configuration it processes as it
  found it: \<open>X_train\<close>, \<open>X_test\<close>, \<open>y_train\<close> and \<open>y_test\<close> of \<open>conf['data']\<close> are
  the same arrays after the call as before, whether the call returns or raises. (The
  arrays are values handed to the library; the function itself never assigns to them.)
\<close>

theorem benchmark_influence_data_readonly:
  assumes "benchmark_influence cf w = (res, cf', w')"
  shows "data cf' = data cf
       \<and> X_train (data cf') = X_train (data cf) \<and> X_test (data cf') = X_test (data cf)
       \<and> y_train (data cf') = y_train (data cf) \<and> y_test (data cf') = y_test (data cf)"
proof -
  from assms obtain r where run: "sweep (changing_param_values cf) cf
       \<lparr>prediction_times = [], prediction_powers = [], complexities = [], y_pred = None\<rparr> w
     = (r, cf', w')"
    by (auto simp: benchmark_influence_def split: prod.splits sum.splits)
  from sweep_frame [OF run] have "data cf' = data (cf\<lparr>tuned_params := tuned_params cf'\<rparr>)"
    by simp
  then show ?thesis by simp
qed

theorem benchmark_influence_data_readonly_witness:
  "data (fst (snd (benchmark_influence toy_conf toy_world))) = toy_data
   \<and> X_test (data (fst (snd (benchmark_influence toy_conf toy_world)))) = [3]"
proof -
  have "benchmark_influence toy_conf toy_world
      = (fst (benchmark_influence toy_conf toy_world),
         fst (snd (benchmark_influence toy_conf toy_world)),
         snd (snd (benchmark_influence toy_conf toy_world)))"
    by simp
  from benchmark_influence_data_readonly [OF this] show ?thesis
    by (simp add: toy_conf_def toy_data_def)
qed
section \<open>Nothing to sweep over\<close>

text \<open>
  C10. For a configuration whose list of parameter values is empty, \<open>benchmark_influence\<close>
  returns three empty sequences and raises nothing; the configuration and the world are
  as before the call, so no estimator was constructed, fitted or asked to predict (the
  log of calls has not grown).
\<close>

theorem benchmark_influence_empty:
  "changing_param_values cf = [] \<Longrightarrow> benchmark_influence cf w = (Inr ([], [], []), cf, w)"
  by (simp add: benchmark_influence_def)

theorem benchmark_influence_empty_witness:
  "changing_param_values toy_conf_empty = []
   \<and> benchmark_influence toy_conf_empty toy_world = (Inr ([], [], []), toy_conf_empty, toy_world)
   \<and> trace (snd (snd (benchmark_influence toy_conf_empty toy_world))) = []"
  using benchmark_influence_empty [of toy_conf_empty toy_world]
  by (simp add: toy_conf_empty_def toy_conf_def toy_world_def)

section \<open>Two runs from the same seed\<close>

lemma sub_later_1: "py_sub (Finite 140) (Finite 135) = Finite 5"
  by code_simp

lemma sub_later_2: "py_sub (Finite 150) (Finite 145) = Finite 5"
  by code_simp

lemma five_thirds: "(py_truediv (Finite 5) (Finite 3) :: string exn + pyfloat)
    = Inr (Finite (7505999378950827 / 2 ^ 52))"
  by code_simp

lemma same_and_then:
  assumes m: "same_results R (m1 w1) (m2 w2)"
    and f: "\<And>a b u1 u2. R a b \<Longrightarrow> lib u1 = lib u2 \<Longrightarrow> same_results Q (f a u1) (g b u2)"
  shows "same_results Q (and_then m1 f w1) (and_then m2 g w2)"
proof -
  obtain r1 u1 r2 u2 where out: "m1 w1 = (r1, u1)" "m2 w2 = (r2, u2)"
    by (cases "m1 w1"; cases "m2 w2") blast
  show ?thesis
  proof (cases r1)
    case (Inl e)
    with m out show ?thesis
      by (cases r2) (simp_all add: same_results_def and_then_def)
  next
    case (Inr a)
    with m out obtain b where r2: "r2 = Inr b" and ab: "R a b" and lib: "lib u1 = lib u2"
      by (cases r2) (simp_all add: same_results_def)
    from f [OF ab lib] out Inr r2 show ?thesis
      by (simp add: and_then_def)
  qed
qed

lemma same_call:
  "lib w1 = lib w2 \<Longrightarrow> same_results (=) (call ev1 f w1) (call ev2 f w2)"
  by (auto simp: same_results_def call_def split: prod.splits sum.splits)

lemma same_time_time:
  "lib w1 = lib w2 \<Longrightarrow> same_results (\<lambda>_ _. True) (time_time w1) (time_time w2)"
  by (simp add: same_results_def time_time_def)

lemma same_print:
  "lib w1 = lib w2 \<Longrightarrow> same_results (=) (print w1) (print w2)"
  by (simp add: same_results_def print_def)

lemma same_evaluate:
  "lib w1 = lib w2 \<Longrightarrow> same_results (=) (evaluate r w1) (evaluate r w2)"
  by (simp add: same_results_def evaluate_def raise_def return_def split: sum.splits)

lemma py_truediv_cases:
  "(py_truediv a b :: 'x exn + pyfloat) = Inl ZeroDivisionError \<and> b = Finite 0
   \<or> (\<exists>q. (py_truediv a b :: 'x exn + pyfloat) = Inr q) \<and> b \<noteq> Finite 0"
  by (cases b; cases a) simp_all

lemma same_truediv:
  fixes w1 w2 :: "('a, 's, 'x) world"
  assumes "lib w1 = lib w2"
  shows "same_results (\<lambda>_ _. True) (evaluate (py_truediv a1 b :: 'x exn + pyfloat) w1)
           (evaluate (py_truediv a2 b :: 'x exn + pyfloat) w2)"
proof (cases "b = Finite 0")
  case True
  with assms show ?thesis
    by (simp add: same_results_def evaluate_def raise_def return_def)
next
  case False
  with py_truediv_cases [of a1 b, where 'x = 'x] py_truediv_cases [of a2 b, where 'x = 'x]
  obtain q1 q2 where "(py_truediv a1 b :: 'x exn + pyfloat) = Inr q1"
    "(py_truediv a2 b :: 'x exn + pyfloat) = Inr q2" by auto
  with assms show ?thesis
    by (simp add: same_results_def evaluate_def raise_def return_def)
qed

lemma same_read_local:
  "lib w1 = lib w2 \<Longrightarrow> same_results (=) (read_local v w1) (read_local v w2)"
  by (simp add: same_results_def read_local_def raise_def return_def split: option.splits)

lemma same_return:
  "lib w1 = lib w2 \<Longrightarrow> R a b \<Longrightarrow> same_results R (return a w1) (return b w2)"
  by (simp add: same_results_def return_def)

lemma same_predict_loop:
  "lib w1 = lib w2 \<Longrightarrow> same_results (=) (predict_loop k p X yp w1) (predict_loop k p X yp w2)"
proof (induction k arbitrary: yp w1 w2)
  case 0
  then show ?case by (simp add: same_results_def)
next
  case (Suc k)
  have unfold: "predict_loop (Suc k) p X yp w
      = and_then (call (Predict X) p) (\<lambda>y. predict_loop k p X (Some y)) w" for w
    by (simp add: and_then_def)
  show ?case unfolding unfold
    apply (rule same_and_then)
     apply (rule same_call)
     apply (rule Suc.prems)
    apply (simp add: Suc.IH)
    done
qed

lemma same_benchmark_body:
  assumes lib: "lib w1 = lib w2" and loc: "same_locals l1 l2"
  shows "same_results same_locals (benchmark_body cf l1 w1) (benchmark_body cf l2 w2)"
proof -
  from loc have eqs: "prediction_powers l1 = prediction_powers l2"
    "complexities l1 = complexities l2" "y_pred l1 = y_pred l2"
    by (simp_all add: same_locals_def)
  show ?thesis
    unfolding benchmark_body_def eqs
    apply (rule same_and_then, rule same_call, rule lib, clarify)
    apply (rule same_and_then, rule same_print, assumption, clarify)
    apply (rule same_and_then, rule same_call, assumption, clarify)
    apply (rule same_and_then, rule same_call, assumption, clarify)
    apply (rule same_and_then, rule same_call, assumption, clarify)
    apply (rule same_and_then, rule same_time_time, assumption)
    apply (rule same_and_then, rule same_predict_loop, assumption, clarify)
    apply (rule same_and_then, rule same_time_time, assumption)
    apply (rule same_and_then, rule same_evaluate, assumption, clarify)
    apply (rule same_and_then, rule same_truediv, assumption)
    apply (rule same_and_then, rule same_read_local, assumption, clarify)
    apply (rule same_and_then, rule same_call, assumption, clarify)
    apply (rule same_and_then, rule same_print, assumption, clarify)
    apply (rule same_return, assumption)
    apply (simp add: same_locals_def)
    done
qed

lemma same_sweep:
  assumes "lib w1 = lib w2" and "same_locals l1 l2"
    and "sweep vs cf l1 w1 = (r1, cf1, u1)" and "sweep vs cf l2 w2 = (r2, cf2, u2)"
  shows "same_results same_locals (r1, u1) (r2, u2) \<and> cf1 = cf2"
  using assms
proof (induction vs arbitrary: cf l1 l2 w1 w2)
  case Nil
  then show ?case by (auto simp: same_results_def)
next
  case (Cons v vs)
  let ?cf1 = "cf\<lparr>tuned_params := (tuned_params cf)(changing_param cf \<mapsto> v)\<rparr>"
  obtain b1 x1 b2 x2 where body: "benchmark_body ?cf1 l1 w1 = (b1, x1)"
    "benchmark_body ?cf1 l2 w2 = (b2, x2)"
    by (cases "benchmark_body ?cf1 l1 w1"; cases "benchmark_body ?cf1 l2 w2") blast
  from same_benchmark_body [OF Cons.prems(1,2), of ?cf1] body
  have same: "same_results same_locals (b1, x1) (b2, x2)" by simp
  show ?case
  proof (cases b1)
    case (Inl e)
    with same have "b2 = Inl e" "lib x1 = lib x2"
      by (cases b2; simp add: same_results_def)+
    with Inl body Cons.prems(3,4) show ?thesis
      by (auto simp: Let_def same_results_def)
  next
    case (Inr m1)
    with same obtain m2 where b2: "b2 = Inr m2" and m: "same_locals m1 m2"
      and lib: "lib x1 = lib x2"
      by (cases b2) (simp_all add: same_results_def)
    from Inr b2 body Cons.prems(3,4) have
      "sweep vs ?cf1 m1 x1 = (r1, cf1, u1)" "sweep vs ?cf1 m2 x2 = (r2, cf2, u2)"
      by (simp_all add: Let_def)
    from Cons.IH [OF lib m this] show ?thesis .
  qed
qed

lemma sweep_rewrite:
  "vs \<noteq> [] \<Longrightarrow> sweep vs (cf\<lparr>tuned_params := (tuned_params cf)(changing_param cf \<mapsto> x)\<rparr>) loc w
     = sweep vs cf loc w"
  by (cases vs) (simp_all add: Let_def)

lemma benchmark_influence_again:
  assumes "benchmark_influence cf w = (res, cf', w')"
  shows "benchmark_influence cf' u = benchmark_influence cf u"
proof -
  from assms obtain r where run: "sweep (changing_param_values cf) cf
       \<lparr>prediction_times = [], prediction_powers = [], complexities = [], y_pred = None\<rparr> w
     = (r, cf', w')"
    by (auto simp: benchmark_influence_def split: prod.splits sum.splits)
  note frame = sweep_frame [OF run] and tp = sweep_tuned_params [OF run]
  show ?thesis
  proof (cases "changing_param_values cf = []")
    case True
    with tp frame have "cf' = cf" by simp
    then show ?thesis by simp
  next
    case False
    with tp obtain v where "tuned_params cf' = (tuned_params cf)(changing_param cf \<mapsto> v)"
      by blast
    with frame have cf': "cf' = cf\<lparr>tuned_params := (tuned_params cf)(changing_param cf \<mapsto> v)\<rparr>"
      by simp
    have vs: "changing_param_values cf' = changing_param_values cf"
      by (subst cf') simp
    have "sweep (changing_param_values cf) cf' loc0 u
        = sweep (changing_param_values cf) cf loc0 u" for loc0
      using sweep_rewrite [OF False, of cf v loc0 u] by (simp only: cf')
    then show ?thesis
      by (simp only: benchmark_influence_def vs)
  qed
qed

text \<open>
  C6. Two runs of the sweep that start from the same library state (the same seed, the same
  data) on the same configuration, the second one possibly on the configuration as the
  first run left it, agree on everything but the latencies, however the clocks of the two
  runs differ: if the first returns, the second returns the same complexities and the same
  prediction errors; if the first raises, the second raises the same exception; and they
  leave the configuration and the library in the same state.
\<close>

theorem benchmark_influence_deterministic:
  assumes "lib w1 = lib w2"
    and "benchmark_influence cf w1 = (res1, cf1, u1)"
    and "again = cf \<or> again = cf1"
    and "benchmark_influence again w2 = (res2, cf2, u2)"
  shows "(\<forall>powers latencies cs. res1 = Inr (powers, latencies, cs) \<longrightarrow>
            (\<exists>latencies'. res2 = Inr (powers, latencies', cs)))
       \<and> (\<forall>e. res1 = Inl e \<longrightarrow> res2 = Inl e)
       \<and> cf2 = cf1 \<and> lib u2 = lib u1"
proof -
  let ?init = "\<lparr>prediction_times = [], prediction_powers = [], complexities = [],
                 y_pred = None\<rparr>"
  from assms(3,4) benchmark_influence_again [OF assms(2)]
  have second: "benchmark_influence cf w2 = (res2, cf2, u2)" by auto
  obtain r1 where run1: "sweep (changing_param_values cf) cf ?init w1 = (r1, cf1, u1)"
    and res1: "res1 = map_sum id (\<lambda>loc. (prediction_powers loc, prediction_times loc,
                 complexities loc)) r1"
    using assms(2) by (auto simp: benchmark_influence_def split: prod.splits sum.splits)
  obtain r2 where run2: "sweep (changing_param_values cf) cf ?init w2 = (r2, cf2, u2)"
    and res2: "res2 = map_sum id (\<lambda>loc. (prediction_powers loc, prediction_times loc,
                 complexities loc)) r2"
    using second by (auto simp: benchmark_influence_def split: prod.splits sum.splits)
  have "same_locals ?init ?init" by (simp add: same_locals_def)
  from same_sweep [OF assms(1) this run1 run2] res1 res2 show ?thesis
    by (cases r1; cases r2) (auto simp: same_results_def same_locals_def)
qed

theorem benchmark_influence_deterministic_witness:
  "lib toy_world = lib toy_world_later
   \<and> fst (benchmark_influence toy_conf toy_world) = Inr ([Finite 0, Finite 1], [Finite (6004799503160661 / 2 ^ 54), Finite (6004799503160661 / 2 ^ 54)], [1, 2])
   \<and> (\<exists>latencies'.
        fst (benchmark_influence (fst (snd (benchmark_influence toy_conf toy_world))) toy_world_later)
          = Inr ([Finite 0, Finite 1], latencies', [1, 2]))
   \<and> fst (benchmark_influence toy_conf toy_world_later) = Inr ([Finite 0, Finite 1],
            [Finite (7505999378950827 / 2 ^ 52), Finite (7505999378950827 / 2 ^ 52)], [1, 2])"
proof -
  let ?again = "fst (snd (benchmark_influence toy_conf toy_world))"
  have seed: "lib toy_world = lib toy_world_later"
    by (simp add: toy_world_def toy_world_later_def)
  have second: "benchmark_influence ?again toy_world_later
      = (fst (benchmark_influence ?again toy_world_later),
         fst (snd (benchmark_influence ?again toy_world_later)),
         snd (snd (benchmark_influence ?again toy_world_later)))"
    by simp
  have "?again = toy_conf \<or> ?again = ?again" by simp
  from benchmark_influence_deterministic [OF seed toy_run_triple this second]
  have "\<exists>latencies'. fst (benchmark_influence ?again toy_world_later)
          = Inr ([Finite 0, Finite 1], latencies', [1, 2])"
    by blast
  moreover have "fst (benchmark_influence toy_conf toy_world_later)
      = Inr ([Finite 0, Finite 1],
            [Finite (7505999378950827 / 2 ^ 52), Finite (7505999378950827 / 2 ^ 52)], [1, 2])"
    by (simp add: toy_conf_def toy_class_def toy_data_def toy_world_later_def run_defs
          eval_nat_numeral float_three sub_later_1 sub_later_2 five_thirds
          del: py_sub.simps py_truediv.simps)
  ultimately show ?thesis using seed toy_run by simp
qed

section \<open>Exceptions end the run\<close>

lemma predict_loop_raises:
  assumes "j < k" and "st 0 = lib w"
    and "\<forall>i<j. p (st i) = (Inr (ys i), st (Suc i))"
    and "p (st j) = (Inl e, s')"
  shows "\<exists>w'. predict_loop k p X yp w = (Inl e, w') \<and> lib w' = s'
           \<and> trace w' = trace w @ replicate (Suc j) (Predict X) @ [Raise e]"
  using assms
proof (induction j arbitrary: k st ys yp w)
  case 0
  then obtain k' where k: "k = Suc k'" by (cases k) auto
  from 0 show ?case
    by (simp add: k call_def)
next
  case (Suc j)
  then obtain k' where k: "k = Suc k'" and j: "j < k'" by (cases k) auto
  from Suc.prems(2,3) have first: "p (lib w) = (Inr (ys 0), st (Suc 0))"
    by (metis zero_less_Suc)
  let ?w1 = "w\<lparr>lib := st (Suc 0), trace := trace w @ [Predict X]\<rparr>"
  have a: "(st \<circ> Suc) 0 = lib ?w1" by simp
  from Suc.prems(3) have b: "\<forall>i<j. p ((st \<circ> Suc) i) = (Inr ((ys \<circ> Suc) i), (st \<circ> Suc) (Suc i))"
    by simp
  from Suc.prems(4) have c: "p ((st \<circ> Suc) j) = (Inl e, s')" by simp
  from Suc.IH [OF j a b c, of "Some (ys 0)"] first show ?case
    by (simp add: k call_def replicate_app_Cons_same)
qed

lemma benchmark_body_fit_raises:
  assumes "init (estimator cf) (tuned_params cf) (lib w) = (Inr est, s1)"
    and "fit (estimator cf) est (X_train (data cf)) (y_train (data cf)) s1 = (Inl e, s')"
  shows "\<exists>w'. benchmark_body cf loc w = (Inl e, w') \<and> lib w' = s'
           \<and> trace w' = trace w @ [Construct, Stdout,
                 Fit (X_train (data cf)) (y_train (data cf)), Raise e]"
  using assms by (simp add: benchmark_body_def and_then_def call_def print_def)

lemma benchmark_body_predict_raises:
  assumes "init (estimator cf) (tuned_params cf) (lib w) = (Inr est, s1)"
    and "fit (estimator cf) est (X_train (data cf)) (y_train (data cf)) s1 = (Inr (), s2)"
    and "postfit_hook cf est s2 = (Inr (), s3)"
    and "complexity_computer cf est s3 = (Inr c, st 0)"
    and "j < nat (n_samples cf)"
    and "\<forall>i<j. predict (estimator cf) est (X_test (data cf)) (st i) = (Inr (ys i), st (Suc i))"
    and "predict (estimator cf) est (X_test (data cf)) (st j) = (Inl e, s')"
  shows "\<exists>w'. benchmark_body cf loc w = (Inl e, w') \<and> lib w' = s'
           \<and> trace w' = trace w @ [Construct, Stdout,
                 Fit (X_train (data cf)) (y_train (data cf)), PostfitHook, ComplexityComputer,
                 Time (clock w (st 0) (ticks w))]
               @ replicate (Suc j) (Predict (X_test (data cf))) @ [Raise e]"
proof -
  let ?w5 = "w\<lparr>lib := st 0, trace := trace w @ [Construct, Stdout,
      Fit (X_train (data cf)) (y_train (data cf)), PostfitHook, ComplexityComputer],
      ticks := Suc (ticks w),
      trace := trace w @ [Construct, Stdout,
      Fit (X_train (data cf)) (y_train (data cf)), PostfitHook, ComplexityComputer,
      Time (clock w (st 0) (ticks w))]\<rparr>"
  have "st 0 = lib ?w5" by simp
  from predict_loop_raises [OF assms(5) this assms(6,7), of "X_test (data cf)" "y_pred loc"]
  obtain w' where loop: "predict_loop (nat (n_samples cf))
      (predict (estimator cf) est (X_test (data cf))) (X_test (data cf)) (y_pred loc) ?w5
        = (Inl e, w')" and w': "lib w' = s'"
    "trace w' = trace ?w5 @ replicate (Suc j) (Predict (X_test (data cf))) @ [Raise e]"
    by blast
  from assms(1-4) loop have "benchmark_body cf loc w = (Inl e, w')"
    by (simp add: benchmark_body_def and_then_def call_def print_def time_time_def)
  with w' show ?thesis by simp
qed

text \<open>
  C7. Take a pass of the sweep, for value \<open>m\<close>, that is reached (the sweep over the values
  before it returns) and whose estimator is constructed. If the call of \<open>fit\<close> of that
  pass raises \<open>e\<close>, leaving the library in state \<open>s'\<close>, then \<open>benchmark_influence\<close> raises
  \<open>e\<close> itself, and the library is in state \<open>s'\<close> when it does: the failing call is
  the last call of the run. Likewise if \<open>fit\<close>, the hook and the complexity computer return
  and, after \<open>j\<close> calls of \<open>predict\<close> that return, the next call of \<open>predict\<close> in the
  prediction loop raises \<open>e\<close>. In both cases the log of the run ends with the failing
  call and its exception: no call is repeated, no later value is tried, no other exception
  is put in its place.
\<close>

theorem benchmark_influence_propagates:
  assumes "m < length (changing_param_values cf)"
    and "benchmark_influence (cf\<lparr>changing_param_values := take m (changing_param_values cf)\<rparr>) w
           = (Inr r, cf_m, w_m)"
    and "init (estimator cf)
           ((tuned_params cf)(changing_param cf \<mapsto> changing_param_values cf ! m)) (lib w_m)
           = (Inr est, s1)"
  shows "(fit (estimator cf) est (X_train (data cf)) (y_train (data cf)) s1 = (Inl e, s') \<longrightarrow>
            (\<exists>cf' w'. benchmark_influence cf w = (Inl e, cf', w') \<and> lib w' = s'
               \<and> trace w' = trace w_m @ [Construct, Stdout,
                     Fit (X_train (data cf)) (y_train (data cf)), Raise e]))
       \<and> (fit (estimator cf) est (X_train (data cf)) (y_train (data cf)) s1 = (Inr (), s2)
            \<and> postfit_hook cf est s2 = (Inr (), s3)
            \<and> complexity_computer cf est s3 = (Inr c, st 0)
            \<and> j < nat (n_samples cf)
            \<and> (\<forall>i<j. predict (estimator cf) est (X_test (data cf)) (st i)
                        = (Inr (ys i), st (Suc i)))
            \<and> predict (estimator cf) est (X_test (data cf)) (st j) = (Inl e, s') \<longrightarrow>
            (\<exists>cf' w'. benchmark_influence cf w = (Inl e, cf', w') \<and> lib w' = s'
               \<and> trace w' = trace w_m @ [Construct, Stdout,
                     Fit (X_train (data cf)) (y_train (data cf)), PostfitHook,
                     ComplexityComputer, Time (clock w_m (st 0) (ticks w_m))]
                   @ replicate (Suc j) (Predict (X_test (data cf))) @ [Raise e]))"
proof -
  let ?vs = "changing_param_values cf"
  let ?init = "\<lparr>prediction_times = [], prediction_powers = [], complexities = [],
                 y_pred = None\<rparr>"
  let ?v = "?vs ! m"
  from assms(2) obtain loc_m cf_p where
    first: "sweep (take m ?vs) cf ?init w = (Inr loc_m, cf_p, w_m)"
    by (auto simp: benchmark_influence_def sweep_values split: prod.splits sum.splits)
  let ?cf1 = "cf_p\<lparr>tuned_params := (tuned_params cf_p)(changing_param cf_p \<mapsto> ?v)\<rparr>"
  from sweep_frame [OF first] have frame: "cf_p = cf\<lparr>tuned_params := tuned_params cf_p\<rparr>" .
  have cp: "changing_param cf_p = changing_param cf" by (subst frame) simp
  from sweep_tuned_params [OF first]
  have tp: "(tuned_params cf_p)(changing_param cf \<mapsto> ?v) = (tuned_params cf)(changing_param cf \<mapsto> ?v)"
    by (cases "take m ?vs = []") auto
  have cf1: "?cf1 = cf\<lparr>tuned_params := (tuned_params cf)(changing_param cf \<mapsto> ?v)\<rparr>"
    by (subst (1 2) frame) (simp add: cp tp del: fun_upd_apply)
  from assms(1) have split: "?vs = take m ?vs @ ?v # drop (Suc m) ?vs"
    by (simp add: id_take_nth_drop)
  have rest: "sweep ?vs cf ?init w = sweep (?v # drop (Suc m) ?vs) cf_p loc_m w_m"
    by (subst split) (simp only: sweep_append first prod.case sum.case)
  have body: "\<exists>cf' w'. benchmark_influence cf w = (Inl e, cf', w') \<and> lib w' = s' \<and> trace w' = T"
    if "\<exists>w'. benchmark_body ?cf1 loc_m w_m = (Inl e, w') \<and> lib w' = s' \<and> trace w' = T" for T
    using that by (auto simp: benchmark_influence_def rest Let_def)
  have est: "init (estimator ?cf1) (tuned_params ?cf1) (lib w_m) = (Inr est, s1)"
    using assms(3) by (simp only: cf1) simp
  have fields: "estimator ?cf1 = estimator cf" "data ?cf1 = data cf"
    "postfit_hook ?cf1 = postfit_hook cf" "complexity_computer ?cf1 = complexity_computer cf"
    "n_samples ?cf1 = n_samples cf"
    by (simp_all only: cf1) simp_all
  have "\<exists>cf' w'. benchmark_influence cf w = (Inl e, cf', w') \<and> lib w' = s'
               \<and> trace w' = trace w_m @ [Construct, Stdout,
                     Fit (X_train (data cf)) (y_train (data cf)), Raise e]"
    if "fit (estimator cf) est (X_train (data cf)) (y_train (data cf)) s1 = (Inl e, s')"
    using benchmark_body_fit_raises [of ?cf1 w_m est s1 e s' loc_m, OF est] that
    by (intro body) (simp only: fields)
  moreover have "\<exists>cf' w'. benchmark_influence cf w = (Inl e, cf', w') \<and> lib w' = s'
               \<and> trace w' = trace w_m @ [Construct, Stdout,
                     Fit (X_train (data cf)) (y_train (data cf)), PostfitHook,
                     ComplexityComputer, Time (clock w_m (st 0) (ticks w_m))]
                   @ replicate (Suc j) (Predict (X_test (data cf))) @ [Raise e]"
    if "fit (estimator cf) est (X_train (data cf)) (y_train (data cf)) s1 = (Inr (), s2)"
      "postfit_hook cf est s2 = (Inr (), s3)"
      "complexity_computer cf est s3 = (Inr c, st 0)"
      "j < nat (n_samples cf)"
      "\<forall>i<j. predict (estimator cf) est (X_test (data cf)) (st i) = (Inr (ys i), st (Suc i))"
      "predict (estimator cf) est (X_test (data cf)) (st j) = (Inl e, s')"
    using benchmark_body_predict_raises [of ?cf1 w_m est s1 s2 s3 c st j ys e s' loc_m, OF est] that
    by (intro body) (simp only: fields)
  ultimately show ?thesis by blast
qed


lemma toy_bad_fit_prefix:
  "benchmark_influence
     (toy_conf_bad_fit\<lparr>changing_param_values := take 0 (changing_param_values toy_conf_bad_fit)\<rparr>)
     toy_world
   = (Inr ([], [], []), toy_conf_bad_fit\<lparr>changing_param_values := []\<rparr>, toy_world)"
  by (simp add: benchmark_influence_def)

lemma toy_bad_predict_prefix:
  "benchmark_influence
     (toy_conf_bad_predict\<lparr>changing_param_values :=
        take 1 (changing_param_values toy_conf_bad_predict)\<rparr>) toy_world
   = (Inr ([Finite 0], [Finite (6004799503160661 / 2 ^ 54)], [1]),
      toy_conf_bad_predict\<lparr>changing_param_values := [PyInt 1],
        tuned_params := (tuned_params toy_conf_bad_predict)(''k'' \<mapsto> PyInt 1)\<rparr>,
      \<lparr>lib = 4, clock = (\<lambda>s k. Finite (real k)), ticks = 2,
       trace = [Construct, Stdout, Fit [1, 2] [1, 2], PostfitHook, ComplexityComputer,
                Time (Finite 0), Predict [3], Predict [3], Predict [3], Time (Finite 1),
                PerformanceComputer [3] [3], Stdout]\<rparr>)"
  by (simp add: toy_conf_bad_predict_def toy_defs run_defs eval_nat_numeral float_three sub_1_0
        third del: py_sub.simps py_truediv.simps)

theorem benchmark_influence_propagates_witness:
  "(\<exists>cf' w'. benchmark_influence toy_conf_bad_fit toy_world
                = (Inl (LibraryError ''ValueError''), cf', w')
        \<and> lib w' = 0
        \<and> trace w' = [Construct, Stdout, Fit [1, 2] [1], Raise (LibraryError ''ValueError'')])
   \<and> (\<exists>cf' w'. benchmark_influence toy_conf_bad_predict toy_world
                = (Inl (LibraryError ''MemoryError''), cf', w')
        \<and> lib w' = 5
        \<and> trace w' = [Construct, Stdout, Fit [1, 2] [1, 2], PostfitHook, ComplexityComputer,
                Time (Finite 0), Predict [3], Predict [3], Predict [3], Time (Finite 1),
                PerformanceComputer [3] [3], Stdout,
                Construct, Stdout, Fit [1, 2] [1, 2], PostfitHook, ComplexityComputer,
                Time (Finite 2), Predict [3], Raise (LibraryError ''MemoryError'')])"
proof -
  have fit_vs: "0 < length (changing_param_values toy_conf_bad_fit)"
    by (simp add: toy_conf_bad_fit_def toy_conf_def)
  have fit_init: "init (estimator toy_conf_bad_fit)
       ((tuned_params toy_conf_bad_fit)(changing_param toy_conf_bad_fit
          \<mapsto> changing_param_values toy_conf_bad_fit ! 0)) (lib toy_world) = (Inr 1, 0)"
    by (simp add: toy_conf_bad_fit_def toy_defs)
  have fit_raises: "fit (estimator toy_conf_bad_fit) 1 (X_train (data toy_conf_bad_fit))
       (y_train (data toy_conf_bad_fit)) 0 = (Inl (LibraryError ''ValueError''), 0)"
    by (simp add: toy_conf_bad_fit_def toy_defs)
  from benchmark_influence_propagates [where e = "LibraryError ''ValueError''" and s' = 0,
      OF fit_vs toy_bad_fit_prefix fit_init] fit_raises
  have a: "\<exists>cf' w'. benchmark_influence toy_conf_bad_fit toy_world
                = (Inl (LibraryError ''ValueError''), cf', w')
        \<and> lib w' = 0
        \<and> trace w' = [Construct, Stdout, Fit [1, 2] [1], Raise (LibraryError ''ValueError'')]"
    by (simp add: toy_conf_bad_fit_def toy_defs)
  have pr_vs: "1 < length (changing_param_values toy_conf_bad_predict)"
    by (simp add: toy_conf_bad_predict_def toy_conf_def)
  have pr_init: "init (estimator toy_conf_bad_predict)
       ((tuned_params toy_conf_bad_predict)(changing_param toy_conf_bad_predict
          \<mapsto> changing_param_values toy_conf_bad_predict ! 1))
       (lib \<lparr>lib = 4, clock = (\<lambda>s k. Finite (real k)), ticks = 2,
       trace = [Construct, Stdout, Fit [1, 2] [1, 2], PostfitHook, ComplexityComputer,
                Time (Finite 0), Predict [3], Predict [3], Predict [3], Time (Finite 1),
                PerformanceComputer [3] [3], Stdout]\<rparr>) = (Inr 2, 4)"
    by (simp add: toy_conf_bad_predict_def toy_defs)
  have pr_chain: "fit (estimator toy_conf_bad_predict) 2 (X_train (data toy_conf_bad_predict))
       (y_train (data toy_conf_bad_predict)) 4 = (Inr (), 5)
     \<and> postfit_hook toy_conf_bad_predict 2 5 = (Inr (), 5)
     \<and> complexity_computer toy_conf_bad_predict 2 5 = (Inr 2, (\<lambda>_. 5) 0)
     \<and> 0 < nat (n_samples toy_conf_bad_predict)
     \<and> (\<forall>i<0. predict (estimator toy_conf_bad_predict) 2 (X_test (data toy_conf_bad_predict))
                  ((\<lambda>_. 5) i) = (Inr ((\<lambda>_. []) i), (\<lambda>_. 5) (Suc i)))
     \<and> predict (estimator toy_conf_bad_predict) 2 (X_test (data toy_conf_bad_predict))
         ((\<lambda>_. 5) 0) = (Inl (LibraryError ''MemoryError''), 5)"
    by (simp add: toy_conf_bad_predict_def toy_defs)
  from benchmark_influence_propagates [where e = "LibraryError ''MemoryError''" and s' = 5
      and ?s2.0 = 5 and ?s3.0 = 5 and c = 2 and st = "\<lambda>_. 5" and j = 0 and ys = "\<lambda>_. []",
      OF pr_vs toy_bad_predict_prefix pr_init] pr_chain
  have b: "\<exists>cf' w'. benchmark_influence toy_conf_bad_predict toy_world
                = (Inl (LibraryError ''MemoryError''), cf', w')
        \<and> lib w' = 5
        \<and> trace w' = [Construct, Stdout, Fit [1, 2] [1, 2], PostfitHook, ComplexityComputer,
                Time (Finite 0), Predict [3], Predict [3], Predict [3], Time (Finite 1),
                PerformanceComputer [3] [3], Stdout,
                Construct, Stdout, Fit [1, 2] [1, 2], PostfitHook, ComplexityComputer,
                Time (Finite 2), Predict [3], Raise (LibraryError ''MemoryError'')]"
    by (simp add: toy_conf_bad_predict_def toy_defs)
  from a b show ?thesis by blast
qed

section \<open>The chart\<close>

lemma and_then_Inl:
  "and_then m f w = (Inl e, w') \<longleftrightarrow>
     (m w = (Inl e, w') \<or> (\<exists>a w1. m w = (Inr a, w1) \<and> f a w1 = (Inl e, w')))"
  by (auto simp: and_then_def split: prod.splits sum.splits)

lemma stateless_plot_influence:
  assumes "stateless go"
  shows "plot_influence go cf mse latencies cs g
       = (fst (plot_influence go cf mse latencies cs h), (cf, mse, latencies, cs), g)"
proof -
  from assms have sc: "\<And>kwargs g h. go_Scatter go kwargs g = (fst (go_Scatter go kwargs h), g)"
    and ly: "\<And>kwargs g h. go_Layout go kwargs g = (fst (go_Layout go kwargs h), g)"
    and fg: "\<And>traces lay g h. go_Figure go traces lay g = (fst (go_Figure go traces lay h), g)"
    by (simp_all add: stateless_def)
  have bind: "and_then m f g = (fst (and_then m f h), g)"
    if "\<And>g h. m g = (fst (m h), g)" and "\<And>a g h. f a g = (fst (f a h), g)"
    for m :: "'d \<Rightarrow> ('e exn + 'r) \<times> 'd" and f :: "'r \<Rightarrow> 'd \<Rightarrow> ('e exn + 'q) \<times> 'd" and g h
  proof -
    obtain r where r: "fst (m h) = r" by simp
    with that(1) have mg: "m g = (r, g)" "m h = (r, h)" by (metis, metis prod.collapse fst_conv)
    show ?thesis
    proof (cases r)
      case (Inl e)
      with mg show ?thesis by (simp add: and_then_def)
    next
      case (Inr a)
      with mg that(2) [of a g h] show ?thesis by (simp add: and_then_def)
    qed
  qed
  have chain: "and_then (go_Scatter go A) (\<lambda>p1.
        and_then (go_Scatter go B) (\<lambda>p2.
        and_then (go_Layout go C) (\<lambda>layout. go_Figure go [p1, p2] layout))) g
      = (fst (and_then (go_Scatter go A) (\<lambda>p1.
        and_then (go_Scatter go B) (\<lambda>p2.
        and_then (go_Layout go C) (\<lambda>layout. go_Figure go [p1, p2] layout))) h), g)"
    for A B C g h
    by (intro bind sc ly fg)
  show ?thesis
    unfolding plot_influence_def
    by (subst chain [of _ _ _ g h]) (simp add: split_def)
qed


text \<open>
  C9. \<open>plot_influence\<close> does nothing but build the chart from its arguments. It leaves
  its four arguments as they are. When it returns, the figure is what \<open>go.Figure\<close>
  returned for two traces and a layout made, in this order, by \<open>go.Scatter\<close> from the
  complexities and the errors, by \<open>go.Scatter\<close> from the complexities and the latencies on
  the second y axis, and by \<open>go.Layout\<close> with an x axis titled with the complexity label,
  a left y axis titled with the prediction-performance label and a right y axis
  \<open>Time (s)\<close> overlaying the left one; the charting library is left in the state after
  these four calls. When it raises, the exception is the one of the first of the four
  calls that raised, and nothing was called after it. Of the configuration it uses the
  class name and the two labels only. It is as pure as the charting library: with
  constructors that neither read nor change the charting state, the call leaves that state
  as it is and its result is the same in every state.
\<close>

theorem plot_influence_chart:
  assumes "plot_influence go cf mse latencies cs g = (res, args', g')"
  shows "args' = (cf, mse, latencies, cs)
       \<and> (\<forall>fig. res = Inr fig \<longrightarrow>
            (\<exists>p1 g1 p2 g2 lay g3.
               go_Scatter go
                 \<lparr>scatter_x = cs, scatter_y = mse, scatter_name = ''prediction error'',
                scatter_mode = ''lines'', scatter_yaxis = None, line_color = ''blue''\<rparr> g = (Inr p1, g1)
             \<and> go_Scatter go
                 \<lparr>scatter_x = cs, scatter_y = latencies, scatter_name = ''latency'',
                scatter_mode = ''lines'', scatter_yaxis = Some ''y2'', line_color = ''red''\<rparr> g1 = (Inr p2, g2)
             \<and> go_Layout go
                 \<lparr>layout_title = ''Influence of Model Complexity - '' @ class_name (estimator cf),
                xaxis = \<lparr>axis_title = ''Model Complexity ('' @ complexity_label cf @ '')'',
                          showgrid = False, titlefont_color = None,
                          overlaying = None, side = None\<rparr>,
                yaxis = \<lparr>axis_title = prediction_performance_label cf,
                          showgrid = False, titlefont_color = Some ''blue'',
                          overlaying = None, side = None\<rparr>,
                yaxis2 = \<lparr>axis_title = ''Time (s)'',
                           showgrid = False, titlefont_color = Some ''red'',
                           overlaying = Some ''y'', side = Some ''right''\<rparr>\<rparr> g2 = (Inr lay, g3)
             \<and> go_Figure go [p1, p2] lay g3 = (Inr fig, g')))
       \<and> (\<forall>e. res = Inl e \<longrightarrow>
            go_Scatter go
                 \<lparr>scatter_x = cs, scatter_y = mse, scatter_name = ''prediction error'',
                scatter_mode = ''lines'', scatter_yaxis = None, line_color = ''blue''\<rparr> g = (Inl e, g')
          \<or> (\<exists>p1 g1.
               go_Scatter go
                 \<lparr>scatter_x = cs, scatter_y = mse, scatter_name = ''prediction error'',
                scatter_mode = ''lines'', scatter_yaxis = None, line_color = ''blue''\<rparr> g = (Inr p1, g1)
             \<and> (go_Scatter go
                 \<lparr>scatter_x = cs, scatter_y = latencies, scatter_name = ''latency'',
                scatter_mode = ''lines'', scatter_yaxis = Some ''y2'', line_color = ''red''\<rparr> g1 = (Inl e, g')
               \<or> (\<exists>p2 g2.
                   go_Scatter go
                 \<lparr>scatter_x = cs, scatter_y = latencies, scatter_name = ''latency'',
                scatter_mode = ''lines'', scatter_yaxis = Some ''y2'', line_color = ''red''\<rparr> g1 = (Inr p2, g2)
                 \<and> (go_Layout go
                 \<lparr>layout_title = ''Influence of Model Complexity - '' @ class_name (estimator cf),
                xaxis = \<lparr>axis_title = ''Model Complexity ('' @ complexity_label cf @ '')'',
                          showgrid = False, titlefont_color = None,
                          overlaying = None, side = None\<rparr>,
                yaxis = \<lparr>axis_title = prediction_performance_label cf,
                          showgrid = False, titlefont_color = Some ''blue'',
                          overlaying = None, side = None\<rparr>,
                yaxis2 = \<lparr>axis_title = ''Time (s)'',
                           showgrid = False, titlefont_color = Some ''red'',
                           overlaying = Some ''y'', side = Some ''right''\<rparr>\<rparr> g2 = (Inl e, g')
                   \<or> (\<exists>lay g3.
                       go_Layout go
                 \<lparr>layout_title = ''Influence of Model Complexity - '' @ class_name (estimator cf),
                xaxis = \<lparr>axis_title = ''Model Complexity ('' @ complexity_label cf @ '')'',
                          showgrid = False, titlefont_color = None,
                          overlaying = None, side = None\<rparr>,
                yaxis = \<lparr>axis_title = prediction_performance_label cf,
                          showgrid = False, titlefont_color = Some ''blue'',
                          overlaying = None, side = None\<rparr>,
                yaxis2 = \<lparr>axis_title = ''Time (s)'',
                           showgrid = False, titlefont_color = Some ''red'',
                           overlaying = Some ''y'', side = Some ''right''\<rparr>\<rparr> g2 = (Inr lay, g3)
                     \<and> go_Figure go [p1, p2] lay g3 = (Inl e, g')))))))
       \<and> (\<forall>other. class_name (estimator other) = class_name (estimator cf)
              \<and> complexity_label other = complexity_label cf
              \<and> prediction_performance_label other = prediction_performance_label cf \<longrightarrow>
            plot_influence go other mse latencies cs g = (res, (other, mse, latencies, cs), g'))
       \<and> (stateless go \<longrightarrow>
            g' = g \<and> (\<forall>h. plot_influence go cf mse latencies cs h = (res, args', h)))"
proof -
  from assms have frame: "args' = (cf, mse, latencies, cs)"
    by (auto simp: plot_influence_def split: prod.splits)
  from assms have returns: "\<exists>p1 g1 p2 g2 lay g3.
               go_Scatter go
                 \<lparr>scatter_x = cs, scatter_y = mse, scatter_name = ''prediction error'',
                scatter_mode = ''lines'', scatter_yaxis = None, line_color = ''blue''\<rparr> g = (Inr p1, g1)
             \<and> go_Scatter go
                 \<lparr>scatter_x = cs, scatter_y = latencies, scatter_name = ''latency'',
                scatter_mode = ''lines'', scatter_yaxis = Some ''y2'', line_color = ''red''\<rparr> g1 = (Inr p2, g2)
             \<and> go_Layout go
                 \<lparr>layout_title = ''Influence of Model Complexity - '' @ class_name (estimator cf),
                xaxis = \<lparr>axis_title = ''Model Complexity ('' @ complexity_label cf @ '')'',
                          showgrid = False, titlefont_color = None,
                          overlaying = None, side = None\<rparr>,
                yaxis = \<lparr>axis_title = prediction_performance_label cf,
                          showgrid = False, titlefont_color = Some ''blue'',
                          overlaying = None, side = None\<rparr>,
                yaxis2 = \<lparr>axis_title = ''Time (s)'',
                           showgrid = False, titlefont_color = Some ''red'',
                           overlaying = Some ''y'', side = Some ''right''\<rparr>\<rparr> g2 = (Inr lay, g3)
             \<and> go_Figure go [p1, p2] lay g3 = (Inr fig, g')" if "res = Inr fig" for fig
    using that by (auto simp: plot_influence_def and_then_Inr split: prod.splits)
  from assms have raises: "go_Scatter go
                 \<lparr>scatter_x = cs, scatter_y = mse, scatter_name = ''prediction error'',
                scatter_mode = ''lines'', scatter_yaxis = None, line_color = ''blue''\<rparr> g = (Inl e, g')
          \<or> (\<exists>p1 g1.
               go_Scatter go
                 \<lparr>scatter_x = cs, scatter_y = mse, scatter_name = ''prediction error'',
                scatter_mode = ''lines'', scatter_yaxis = None, line_color = ''blue''\<rparr> g = (Inr p1, g1)
             \<and> (go_Scatter go
                 \<lparr>scatter_x = cs, scatter_y = latencies, scatter_name = ''latency'',
                scatter_mode = ''lines'', scatter_yaxis = Some ''y2'', line_color = ''red''\<rparr> g1 = (Inl e, g')
               \<or> (\<exists>p2 g2.
                   go_Scatter go
                 \<lparr>scatter_x = cs, scatter_y = latencies, scatter_name = ''latency'',
                scatter_mode = ''lines'', scatter_yaxis = Some ''y2'', line_color = ''red''\<rparr> g1 = (Inr p2, g2)
                 \<and> (go_Layout go
                 \<lparr>layout_title = ''Influence of Model Complexity - '' @ class_name (estimator cf),
                xaxis = \<lparr>axis_title = ''Model Complexity ('' @ complexity_label cf @ '')'',
                          showgrid = False, titlefont_color = None,
                          overlaying = None, side = None\<rparr>,
                yaxis = \<lparr>axis_title = prediction_performance_label cf,
                          showgrid = False, titlefont_color = Some ''blue'',
                          overlaying = None, side = None\<rparr>,
                yaxis2 = \<lparr>axis_title = ''Time (s)'',
                           showgrid = False, titlefont_color = Some ''red'',
                           overlaying = Some ''y'', side = Some ''right''\<rparr>\<rparr> g2 = (Inl e, g')
                   \<or> (\<exists>lay g3.
                       go_Layout go
                 \<lparr>layout_title = ''Influence of Model Complexity - '' @ class_name (estimator cf),
                xaxis = \<lparr>axis_title = ''Model Complexity ('' @ complexity_label cf @ '')'',
                          showgrid = False, titlefont_color = None,
                          overlaying = None, side = None\<rparr>,
                yaxis = \<lparr>axis_title = prediction_performance_label cf,
                          showgrid = False, titlefont_color = Some ''blue'',
                          overlaying = None, side = None\<rparr>,
                yaxis2 = \<lparr>axis_title = ''Time (s)'',
                           showgrid = False, titlefont_color = Some ''red'',
                           overlaying = Some ''y'', side = Some ''right''\<rparr>\<rparr> g2 = (Inr lay, g3)
                     \<and> go_Figure go [p1, p2] lay g3 = (Inl e, g'))))))" if "res = Inl e" for e
    using that by (simp add: plot_influence_def and_then_Inl split: prod.splits)
  from assms have uses: "plot_influence go other mse latencies cs g
      = (res, (other, mse, latencies, cs), g')"
    if "class_name (estimator other) = class_name (estimator cf)
      \<and> complexity_label other = complexity_label cf
      \<and> prediction_performance_label other = prediction_performance_label cf" for other
    using that by (auto simp: plot_influence_def split: prod.splits)
  have pure: "g' = g \<and> (\<forall>h. plot_influence go cf mse latencies cs h = (res, args', h))"
    if "stateless go"
  proof -
    from stateless_plot_influence [OF that, of cf mse latencies cs g g] assms
    have "g' = g" by simp
    moreover have "plot_influence go cf mse latencies cs h = (res, args', h)" for h
      using stateless_plot_influence [OF that, of cf mse latencies cs h g] assms frame by simp
    ultimately show ?thesis by blast
  qed
  from frame returns raises uses pure show ?thesis by blast
qed


theorem plot_influence_chart_witness:
  "stateless (toy_chart :: (scatter, layout, scatter list \<times> layout, nat, string) chart_api)
   \<and> (\<forall>h :: nat. plot_influence toy_chart toy_conf [Finite 0, Finite 1]
        [Finite (6004799503160661 / 2 ^ 54), Finite (6004799503160661 / 2 ^ 54)] [1, 2] h
        = (Inr ([\<lparr>scatter_x = [1, 2], scatter_y = [Finite 0, Finite 1],
                  scatter_name = ''prediction error'', scatter_mode = ''lines'',
                  scatter_yaxis = None, line_color = ''blue''\<rparr>,
                \<lparr>scatter_x = [1, 2],
                  scatter_y = [Finite (6004799503160661 / 2 ^ 54),
                               Finite (6004799503160661 / 2 ^ 54)],
                  scatter_name = ''latency'', scatter_mode = ''lines'',
                  scatter_yaxis = Some ''y2'', line_color = ''red''\<rparr>],
               \<lparr>layout_title = ''Influence of Model Complexity - Toy'',
                 xaxis = \<lparr>axis_title = ''Model Complexity (k)'', showgrid = False,
                           titlefont_color = None, overlaying = None, side = None\<rparr>,
                 yaxis = \<lparr>axis_title = ''mismatches'', showgrid = False,
                           titlefont_color = Some ''blue'', overlaying = None, side = None\<rparr>,
                 yaxis2 = \<lparr>axis_title = ''Time (s)'', showgrid = False,
                            titlefont_color = Some ''red'', overlaying = Some ''y'',
                            side = Some ''right''\<rparr>\<rparr>),
           (toy_conf, [Finite 0, Finite 1],
           [Finite (6004799503160661 / 2 ^ 54), Finite (6004799503160661 / 2 ^ 54)], [1, 2]), h))"
proof -
  have pure: "stateless (toy_chart :: (scatter, layout, scatter list \<times> layout, nat, string) chart_api)"
    by (simp add: stateless_def toy_chart_def)
  have run: "plot_influence toy_chart toy_conf [Finite 0, Finite 1]
        [Finite (6004799503160661 / 2 ^ 54), Finite (6004799503160661 / 2 ^ 54)] [1, 2] (0 :: nat)
        = (Inr ([\<lparr>scatter_x = [1, 2], scatter_y = [Finite 0, Finite 1],
                  scatter_name = ''prediction error'', scatter_mode = ''lines'',
                  scatter_yaxis = None, line_color = ''blue''\<rparr>,
                \<lparr>scatter_x = [1, 2],
                  scatter_y = [Finite (6004799503160661 / 2 ^ 54),
                               Finite (6004799503160661 / 2 ^ 54)],
                  scatter_name = ''latency'', scatter_mode = ''lines'',
                  scatter_yaxis = Some ''y2'', line_color = ''red''\<rparr>],
               \<lparr>layout_title = ''Influence of Model Complexity - Toy'',
                 xaxis = \<lparr>axis_title = ''Model Complexity (k)'', showgrid = False,
                           titlefont_color = None, overlaying = None, side = None\<rparr>,
                 yaxis = \<lparr>axis_title = ''mismatches'', showgrid = False,
                           titlefont_color = Some ''blue'', overlaying = None, side = None\<rparr>,
                 yaxis2 = \<lparr>axis_title = ''Time (s)'', showgrid = False,
                            titlefont_color = Some ''red'', overlaying = Some ''y'',
                            side = Some ''right''\<rparr>\<rparr>),
           (toy_conf, [Finite 0, Finite 1],
           [Finite (6004799503160661 / 2 ^ 54), Finite (6004799503160661 / 2 ^ 54)], [1, 2]), 0)"
    by (simp add: plot_influence_def and_then_def toy_chart_def toy_conf_def toy_class_def)
  from plot_influence_chart [OF run] pure
  have "\<forall>h :: nat. plot_influence toy_chart toy_conf [Finite 0, Finite 1]
        [Finite (6004799503160661 / 2 ^ 54), Finite (6004799503160661 / 2 ^ 54)] [1, 2] h
        = (Inr ([\<lparr>scatter_x = [1, 2], scatter_y = [Finite 0, Finite 1],
                  scatter_name = ''prediction error'', scatter_mode = ''lines'',
                  scatter_yaxis = None, line_color = ''blue''\<rparr>,
                \<lparr>scatter_x = [1, 2],
                  scatter_y = [Finite (6004799503160661 / 2 ^ 54),
                               Finite (6004799503160661 / 2 ^ 54)],
                  scatter_name = ''latency'', scatter_mode = ''lines'',
                  scatter_yaxis = Some ''y2'', line_color = ''red''\<rparr>],
               \<lparr>layout_title = ''Influence of Model Complexity - Toy'',
                 xaxis = \<lparr>axis_title = ''Model Complexity (k)'', showgrid = False,
                           titlefont_color = None, overlaying = None, side = None\<rparr>,
                 yaxis = \<lparr>axis_title = ''mismatches'', showgrid = False,
                           titlefont_color = Some ''blue'', overlaying = None, side = None\<rparr>,
                 yaxis2 = \<lparr>axis_title = ''Time (s)'', showgrid = False,
                            titlefont_color = Some ''red'', overlaying = Some ''y'',
                            side = Some ''right''\<rparr>\<rparr>),
           (toy_conf, [Finite 0, Finite 1],
           [Finite (6004799503160661 / 2 ^ 54), Finite (6004799503160661 / 2 ^ 54)], [1, 2]), h)"
    by blast
  with pure show ?thesis by blast
qed

section \<open>The out-of-bag error sequences\<close>

lemma map_of_foldl_update:
  "map_of (foldl (\<lambda>od (label, _). AList.update label [] od) od0 clfs) l
     = (if l \<in> fst ` set clfs then Some [] else map_of od0 l)"
  by (induction clfs arbitrary: od0) (auto simp: update_conv' split: prod.splits)

lemma map_of_error_rate_init:
  "map_of (error_rate_init clfs) l = (if l \<in> fst ` set clfs then Some [] else None)"
  by (simp add: error_rate_init_def map_of_foldl_update)

text \<open>
  A run of the inner loop that returns has appended one pair per size, in order, and went
  through one step of the tracker per size, each from the library state the one before
  left.
\<close>

lemma grow_Inr:
  assumes "grow api X y label clf sizes er s = (Inr er', s')"
    and "map_of er label = Some old"
  shows "\<exists>new st. map_of er' = (map_of er)(label \<mapsto> old @ new) \<and> map fst new = sizes
           \<and> st 0 = s \<and> st (length sizes) = s'
           \<and> (\<forall>j<length sizes.
                 grown api X y clf (sizes ! j) (st j) (st (Suc j)) (snd (new ! j)))"
  using assms
proof (induction sizes arbitrary: er s old)
  case Nil
  then have "er' = er" "s' = s" by simp_all
  with Nil.prems(2) show ?case
    by (intro exI [of _ "[]"] exI [of _ "\<lambda>_. s"]) (auto simp: fun_eq_iff)
next
  case (Cons i sizes)
  from Cons.prems obtain s1 s2 score where
    step: "set_params api clf i s = (Inr (), s1)" "fit_forest api clf X y s1 = (Inr (), s2)"
      "oob_score api clf s2 = Inr score"
    and rest: "grow api X y label clf sizes
                 (AList.update label (old @ [(i, py_sub (Finite 1) score)]) er) s2 = (Inr er', s')"
    by (auto simp: Let_def split: prod.splits sum.splits option.splits)
  let ?p = "(i, py_sub (Finite 1) score)"
  have "map_of (AList.update label (old @ [?p]) er) label = Some (old @ [?p])"
    by (simp add: update_conv')
  from Cons.IH [OF rest this] obtain new st where
    new: "map_of er' = (map_of (AList.update label (old @ [?p]) er))
                         (label \<mapsto> (old @ [?p]) @ new)"
      "map fst new = sizes"
    and st: "st 0 = s2" "st (length sizes) = s'"
      "\<forall>j<length sizes. grown api X y clf (sizes ! j) (st j) (st (Suc j)) (snd (new ! j))"
    by blast
  let ?st = "\<lambda>j. case j of 0 \<Rightarrow> s | Suc j' \<Rightarrow> st j'"
  have a: "map_of er' = (map_of er)(label \<mapsto> old @ (?p # new))"
    using new(1) by (simp add: update_conv')
  have b: "map fst (?p # new) = i # sizes"
    using new(2) by simp
  have first: "grown api X y clf i s s2 (py_sub (Finite 1) score)"
    using step by (auto simp: grown_def)
  have c: "grown api X y clf ((i # sizes) ! j) (?st j) (?st (Suc j)) (snd ((?p # new) ! j))"
    if "j < length (i # sizes)" for j
  proof (cases j)
    case 0
    with first st(1) show ?thesis by simp
  next
    case (Suc j')
    with that st(3) show ?thesis by simp
  qed
  show ?case
  proof (intro exI conjI)
    show "map_of er' = (map_of er)(label \<mapsto> old @ (?p # new))" by (rule a)
    show "map fst (?p # new) = i # sizes" by (rule b)
    show "?st 0 = s" by simp
    show "?st (length (i # sizes)) = s'" using st(2) by simp
    show "\<forall>j<length (i # sizes).
        grown api X y clf ((i # sizes) ! j) (?st j) (?st (Suc j)) (snd ((?p # new) ! j))"
      using c by blast
  qed
qed

lemma oob_loop_Inr:
  assumes "oob_loop api X y mn mx clfs er s = (Inr er', s')"
    and "distinct (map fst clfs)"
    and "\<forall>l\<in>fst ` set clfs. map_of er l = Some []"
  shows "(\<exists>S. S 0 = s \<and> S (length clfs) = s'
          \<and> (\<forall>k<length clfs. \<exists>recorded st.
                map_of er' (fst (clfs ! k)) = Some recorded
              \<and> map fst recorded = [mn..mx]
              \<and> st 0 = S k \<and> st (length [mn..mx]) = S (Suc k)
              \<and> (\<forall>j<length [mn..mx].
                    grown api X y (snd (clfs ! k)) ([mn..mx] ! j) (st j) (st (Suc j))
                      (snd (recorded ! j)))))
       \<and> (\<forall>l. l \<notin> fst ` set clfs \<longrightarrow> map_of er' l = map_of er l)"
  using assms
proof (induction clfs arbitrary: er s)
  case Nil
  then show ?case by auto
next
  case (Cons p rest)
  obtain label clf where p: "p = (label, clf)" by (cases p)
  from Cons.prems(1) p obtain er1 s1 where
    g: "grow api X y label clf [mn..mx] er s = (Inr er1, s1)"
    and r: "oob_loop api X y mn mx rest er1 s1 = (Inr er', s')"
    by (auto split: prod.splits sum.splits)
  from Cons.prems(3) p have "map_of er label = Some []" by simp
  from grow_Inr [OF g this] obtain new st where
    new: "map_of er1 = (map_of er)(label \<mapsto> new)" "map fst new = [mn..mx]"
    and st: "st 0 = s" "st (length [mn..mx]) = s1"
      "\<forall>j<length [mn..mx]. grown api X y clf ([mn..mx] ! j) (st j) (st (Suc j)) (snd (new ! j))"
    by auto
  from Cons.prems(2) p have d: "distinct (map fst rest)" and fresh: "label \<notin> fst ` set rest"
    by auto
  from Cons.prems(3) fresh new(1) have "\<forall>l\<in>fst ` set rest. map_of er1 l = Some []"
    by auto
  from Cons.IH [OF r d this] obtain S where
    S: "S 0 = s1" "S (length rest) = s'"
      "\<forall>k<length rest. \<exists>recorded st.
                map_of er' (fst (rest ! k)) = Some recorded
              \<and> map fst recorded = [mn..mx]
              \<and> st 0 = S k \<and> st (length [mn..mx]) = S (Suc k)
              \<and> (\<forall>j<length [mn..mx].
                    grown api X y (snd (rest ! k)) ([mn..mx] ! j) (st j) (st (Suc j))
                      (snd (recorded ! j)))"
    and ih2: "\<forall>l. l \<notin> fst ` set rest \<longrightarrow> map_of er' l = map_of er1 l"
    by blast
  from ih2 fresh new(1) have here: "map_of er' label = Some new" by simp
  let ?S = "\<lambda>k. case k of 0 \<Rightarrow> s | Suc k' \<Rightarrow> S k'"
  have each: "\<exists>recorded st.
                map_of er' (fst ((p # rest) ! k)) = Some recorded
              \<and> map fst recorded = [mn..mx]
              \<and> st 0 = ?S k \<and> st (length [mn..mx]) = ?S (Suc k)
              \<and> (\<forall>j<length [mn..mx].
                    grown api X y (snd ((p # rest) ! k)) ([mn..mx] ! j) (st j) (st (Suc j))
                      (snd (recorded ! j)))" if "k < length (p # rest)" for k
  proof (cases k)
    case 0
    with here new(2) st S(1) p show ?thesis by auto
  next
    case (Suc k')
    with that S(3) show ?thesis by simp
  qed
  have frame: "\<forall>l. l \<notin> fst ` set (p # rest) \<longrightarrow> map_of er' l = map_of er l"
    using ih2 new(1) p by auto
  have "?S 0 = s" "?S (length (p # rest)) = s'" using S(2) by simp_all
  with each frame show ?case by blast
qed

lemma oob_errors_recorded:
  assumes "oob_errors api X y mn mx clfs s = (Inr error_rate, s')"
    and "distinct (map fst clfs)"
  shows "\<exists>S. S 0 = s \<and> S (length clfs) = s'
          \<and> (\<forall>k<length clfs. \<exists>recorded st.
                map_of error_rate (fst (clfs ! k)) = Some recorded
              \<and> map fst recorded = [mn..mx]
              \<and> st 0 = S k \<and> st (length [mn..mx]) = S (Suc k)
              \<and> (\<forall>j<length [mn..mx].
                    grown api X y (snd (clfs ! k)) ([mn..mx] ! j) (st j) (st (Suc j))
                      (snd (recorded ! j))))"
proof -
  have "\<forall>l\<in>fst ` set clfs. map_of (error_rate_init clfs) l = Some []"
    by (simp add: map_of_error_rate_init)
  from oob_loop_Inr [OF assms(1) [unfolded oob_errors_def] assms(2) this]
  show ?thesis by blast
qed

lemma upto_nth: "j < length [m..n] \<Longrightarrow> [m..n] ! j = m + int j"
  by simp

text \<open>
  C3. When the tracker finishes, the sequence recorded under each label of
  \<open>ensemble_clfs\<close> has exactly \<open>max_estimators - min_estimators + 1\<close> entries, one per
  ensemble size of the inclusive range and in that order: entry \<open>j\<close> pairs the size
  \<open>min_estimators + j\<close> with the error of the step of the tracker for that size, in
  which the forest of the label is set to that size and fitted on \<open>X\<close> and \<open>y\<close>, and the
  error is the float \<open>1.0\<close> minus the out-of-bag score the forest has right after that
  fit. The steps follow one another: each starts in the library state the one before
  left, and the forest of label \<open>k + 1\<close> starts where that of label \<open>k\<close> ended. (The
  labels are pairwise different and the range is not inverted, as in the notebook.)
\<close>

theorem oob_errors_length:
  assumes "oob_errors api X y min_e max_e clfs s = (Inr error_rate, s')"
    and "distinct (map fst clfs)"
    and "min_e \<le> max_e + 1"
  shows "\<exists>S. S 0 = s \<and> S (length clfs) = s'
          \<and> (\<forall>k<length clfs. \<exists>recorded st.
                map_of error_rate (fst (clfs ! k)) = Some recorded
              \<and> int (length recorded) = max_e - min_e + 1
              \<and> map fst recorded = [min_e..max_e]
              \<and> st 0 = S k \<and> st (length recorded) = S (Suc k)
              \<and> (\<forall>j<length recorded.
                    fst (recorded ! j) = min_e + int j
                  \<and> grown api X y (snd (clfs ! k)) (min_e + int j) (st j) (st (Suc j))
                      (snd (recorded ! j))))"
proof -
  from oob_errors_recorded [OF assms(1,2)] obtain S where
    S: "S 0 = s" "S (length clfs) = s'"
    and each: "\<And>k. k < length clfs \<Longrightarrow> \<exists>recorded st.
                map_of error_rate (fst (clfs ! k)) = Some recorded
              \<and> map fst recorded = [min_e..max_e]
              \<and> st 0 = S k \<and> st (length [min_e..max_e]) = S (Suc k)
              \<and> (\<forall>j<length [min_e..max_e].
                    grown api X y (snd (clfs ! k)) ([min_e..max_e] ! j) (st j) (st (Suc j))
                      (snd (recorded ! j)))"
    by blast
  have "\<exists>recorded st.
                map_of error_rate (fst (clfs ! k)) = Some recorded
              \<and> int (length recorded) = max_e - min_e + 1
              \<and> map fst recorded = [min_e..max_e]
              \<and> st 0 = S k \<and> st (length recorded) = S (Suc k)
              \<and> (\<forall>j<length recorded.
                    fst (recorded ! j) = min_e + int j
                  \<and> grown api X y (snd (clfs ! k)) (min_e + int j) (st j) (st (Suc j))
                      (snd (recorded ! j)))" if "k < length clfs" for k
  proof -
    from each [OF that] obtain recorded st where
      r: "map_of error_rate (fst (clfs ! k)) = Some recorded"
        "map fst recorded = [min_e..max_e]"
        "st 0 = S k" "st (length [min_e..max_e]) = S (Suc k)"
        "\<forall>j<length [min_e..max_e].
            grown api X y (snd (clfs ! k)) ([min_e..max_e] ! j) (st j) (st (Suc j))
              (snd (recorded ! j))"
      by blast
    from r(2) have len: "length recorded = length [min_e..max_e]"
      by (metis length_map)
    with assms(3) have n: "int (length recorded) = max_e - min_e + 1" by simp
    have sizes: "fst (recorded ! j) = min_e + int j" if "j < length recorded" for j
    proof -
      from that have "fst (recorded ! j) = map fst recorded ! j" by simp
      also from that len have "\<dots> = min_e + int j" by (simp only: r(2) upto_nth)
      finally show ?thesis .
    qed
    have steps: "grown api X y (snd (clfs ! k)) (min_e + int j) (st j) (st (Suc j))
        (snd (recorded ! j))" if "j < length recorded" for j
      using r(5) that len by (metis upto_nth)
    from r(1,2,3) r(4) [folded len] n sizes steps show ?thesis by blast
  qed
  with S show ?thesis by blast
qed

text \<open>
  C4. In the sequence recorded under each label the ensemble sizes never decrease (they
  increase strictly); nothing of the kind holds for the recorded errors, which in the small
  forest go up and down.
\<close>

theorem oob_errors_sizes_nondecreasing:
  assumes "oob_errors api X y min_e max_e clfs s = (Inr error_rate, s')"
    and "distinct (map fst clfs)" and "(label, clf) \<in> set clfs"
  shows "\<exists>recorded. map_of error_rate label = Some recorded
           \<and> sorted (map fst recorded) \<and> sorted_wrt (<) (map fst recorded)"
proof -
  from assms(3) obtain k where k: "k < length clfs" "clfs ! k = (label, clf)"
    by (auto simp: in_set_conv_nth)
  from oob_errors_recorded [OF assms(1,2)] k obtain recorded where
    "map_of error_rate label = Some recorded" "map fst recorded = [min_e..max_e]"
    by (metis fst_conv)
  then show ?thesis by simp
qed


section \<open>Running the tracker on the small forest\<close>

lemma sub_tenth:
  "py_sub (Finite 1) (Finite (3602879701896397 / 2 ^ 55)) = Finite (8106479329266893 / 2 ^ 53)"
  by code_simp

lemma sub_quarter: "py_sub (Finite 1) (Finite (1 / 4)) = Finite (3 / 4)"
  by code_simp

lemma toy_grow_returns:
  assumes "0 \<notin> set sizes" and "map_of er label = Some old"
  shows "\<exists>er' s'. grow toy_forest [1, 2] [1, 2] label clf sizes er s = (Inr er', s')"
  using assms
proof (induction sizes arbitrary: er s old)
  case Nil
  then show ?case by simp
next
  case (Cons i sizes)
  from Cons.prems(1) have i: "i \<noteq> 0" and rest: "0 \<notin> set sizes" by auto
  from i have "\<exists>score. oob_score toy_forest clf i = Inr score"
    by (simp add: toy_forest_def)
  then obtain score where score: "oob_score toy_forest clf i = Inr score" ..
  let ?er = "AList.update label (old @ [(i, py_sub (Finite 1) score)]) er"
  have "map_of ?er label = Some (old @ [(i, py_sub (Finite 1) score)])"
    by (simp add: update_conv')
  from Cons.IH [OF rest this, of i] obtain er' s' where
    "grow toy_forest [1, 2] [1, 2] label clf sizes ?er i = (Inr er', s')" by blast
  moreover have "set_params toy_forest clf i s = (Inr (), i)"
    "fit_forest toy_forest clf [1, 2] [1, 2] i = (Inr (), i)"
    by (simp_all add: toy_forest_def)
  ultimately show ?case using score Cons.prems(2)
    by (simp add: Let_def del: py_sub.simps)
qed

lemma toy_oob_loop_returns:
  assumes "0 < mn" and "fst ` set clfs \<subseteq> dom (map_of er)"
  shows "\<exists>er' s'. oob_loop toy_forest [1, 2] [1, 2] mn mx clfs er s = (Inr er', s')"
  using assms(2)
proof (induction clfs arbitrary: er s)
  case Nil
  then show ?case by simp
next
  case (Cons p rest)
  obtain label clf where p: "p = (label, clf)" by (cases p)
  with Cons.prems obtain old where old: "map_of er label = Some old" by auto
  from assms(1) have "0 \<notin> set [mn..mx]" by simp
  from toy_grow_returns [OF this old, of clf s] obtain er1 s1 where
    g: "grow toy_forest [1, 2] [1, 2] label clf [mn..mx] er s = (Inr er1, s1)" by blast
  from grow_Inr [OF g old] obtain new where "map_of er1 = (map_of er)(label \<mapsto> old @ new)"
    by blast
  with Cons.prems have "fst ` set rest \<subseteq> dom (map_of er1)" by auto
  from Cons.IH [OF this, of s1] g p show ?case by simp
qed

lemma toy_oob_returns:
  "\<exists>error_rate s'.
     oob_errors toy_forest [1, 2] [1, 2] min_estimators max_estimators toy_ensemble 0
       = (Inr error_rate, s')"
proof -
  have "fst ` set toy_ensemble \<subseteq> dom (map_of (error_rate_init toy_ensemble))"
    by (force simp: map_of_error_rate_init)
  moreover have "0 < min_estimators" by (simp add: min_estimators_def)
  ultimately show ?thesis
    unfolding oob_errors_def by (rule toy_oob_loop_returns [rotated])
qed

lemma toy_oob_distinct: "distinct (map fst toy_ensemble)"
  by (simp add: toy_ensemble_def ensemble_clfs_def ensemble_labels_def)

lemma toy_oob_first: "0 < length toy_ensemble" "toy_ensemble ! 0 = (ensemble_labels ! 0, ''sqrt'')"
  by (simp_all add: toy_ensemble_def ensemble_clfs_def ensemble_labels_def)

lemma toy_oob_member: "(ensemble_labels ! 0, ''sqrt'') \<in> set toy_ensemble"
  by (simp add: toy_ensemble_def ensemble_clfs_def ensemble_labels_def)

lemma toy_grown_odd:
  assumes "grown toy_forest X y clf 15 s s' err"
  shows "err = Finite (8106479329266893 / 2 ^ 53)"
proof -
  from assms obtain score where "s' = 15" "oob_score toy_forest clf s' = Inr score"
    "err = py_sub (Finite 1) score"
    by (auto simp: grown_def toy_forest_def split: if_splits)
  moreover from this(1,2) have "score = Finite (3602879701896397 / 2 ^ 55)"
    by (simp add: toy_forest_def)
  ultimately show ?thesis by (simp only: sub_tenth)
qed

lemma toy_grown_even:
  assumes "grown toy_forest X y clf 16 s s' err"
  shows "err = Finite (3 / 4)"
proof -
  from assms obtain score where "s' = 16" "oob_score toy_forest clf s' = Inr score"
    "err = py_sub (Finite 1) score"
    by (auto simp: grown_def toy_forest_def split: if_splits)
  moreover from this(1,2) have "score = Finite (1 / 4)"
    by (simp add: toy_forest_def)
  ultimately show ?thesis by (simp only: sub_quarter)
qed

theorem oob_errors_length_witness:
  "\<exists>error_rate s' recorded.
     oob_errors toy_forest [1, 2] [1, 2] min_estimators max_estimators toy_ensemble 0
       = (Inr error_rate, s')
     \<and> map_of error_rate (ensemble_labels ! 0) = Some recorded
     \<and> int (length recorded) = 161
     \<and> recorded ! 0 = (15, Finite (8106479329266893 / 2 ^ 53))
     \<and> recorded ! 1 = (16, Finite (3 / 4))"
proof -
  from toy_oob_returns obtain error_rate s' where run:
    "oob_errors toy_forest [1, 2] [1, 2] min_estimators max_estimators toy_ensemble 0
       = (Inr error_rate, s')"
    by blast
  have range: "min_estimators \<le> max_estimators + 1"
    by (simp add: min_estimators_def max_estimators_def)
  have n: "max_estimators - min_estimators + 1 = 161"
    by (simp add: min_estimators_def max_estimators_def)
  have m: "min_estimators + int 0 = 15" "min_estimators + int 1 = 16"
    by (simp_all add: min_estimators_def)
  from oob_errors_length [OF run toy_oob_distinct range] toy_oob_first(1)
  obtain recorded st where r: "map_of error_rate (fst (toy_ensemble ! 0)) = Some recorded"
    "int (length recorded) = max_estimators - min_estimators + 1"
    and steps: "\<forall>j<length recorded.
        fst (recorded ! j) = min_estimators + int j
      \<and> grown toy_forest [1, 2] [1, 2] (snd (toy_ensemble ! 0)) (min_estimators + int j)
          (st j) (st (Suc j)) (snd (recorded ! j))"
    by blast
  from r(2) n have len: "0 < length recorded" "1 < length recorded" by simp_all
  from steps len(1) have "fst (recorded ! 0) = 15"
    "grown toy_forest [1, 2] [1, 2] ''sqrt'' 15 (st 0) (st (Suc 0)) (snd (recorded ! 0))"
    by (simp_all only: m [symmetric] toy_oob_first(2) snd_conv)
  then have first: "recorded ! 0 = (15, Finite (8106479329266893 / 2 ^ 53))"
    by (metis toy_grown_odd prod.collapse)
  from steps len(2) have "fst (recorded ! 1) = 16"
    "grown toy_forest [1, 2] [1, 2] ''sqrt'' 16 (st 1) (st (Suc 1)) (snd (recorded ! 1))"
    by (simp_all only: m [symmetric] toy_oob_first(2) snd_conv)
  then have second: "recorded ! 1 = (16, Finite (3 / 4))"
    by (metis toy_grown_even prod.collapse)
  from r(1) have "map_of error_rate (ensemble_labels ! 0) = Some recorded"
    by (simp only: toy_oob_first(2) fst_conv)
  with run r(2) n first second show ?thesis by metis
qed

lemma toy_oob_small:
  "fst (oob_errors toy_forest [1, 2] [1, 2] 1 4 toy_ensemble 0)
      = Inr [(ensemble_labels ! 0, [(1, Finite (8106479329266893 / 2 ^ 53)), (2, Finite (3 / 4)),
                                    (3, Finite (8106479329266893 / 2 ^ 53)), (4, Finite (3 / 4))]),
             (ensemble_labels ! 1, [(1, Finite (8106479329266893 / 2 ^ 53)), (2, Finite (3 / 4)),
                                    (3, Finite (8106479329266893 / 2 ^ 53)), (4, Finite (3 / 4))]),
             (ensemble_labels ! 2, [(1, Finite (8106479329266893 / 2 ^ 53)), (2, Finite (3 / 4)),
                                    (3, Finite (8106479329266893 / 2 ^ 53)), (4, Finite (3 / 4))])]"
  by code_simp

theorem oob_errors_sizes_nondecreasing_witness:
  "\<exists>error_rate s' recorded.
     oob_errors toy_forest [1, 2] [1, 2] 1 4 toy_ensemble 0 = (Inr error_rate, s')
     \<and> map_of error_rate (ensemble_labels ! 0) = Some recorded
     \<and> sorted (map fst recorded)
     \<and> recorded = [(1, Finite (8106479329266893 / 2 ^ 53)), (2, Finite (3 / 4)),
                    (3, Finite (8106479329266893 / 2 ^ 53)), (4, Finite (3 / 4))]
     \<and> map (finite_value \<circ> snd) recorded
         = [8106479329266893 / 2 ^ 53, 3 / 4, 8106479329266893 / 2 ^ 53, 3 / 4]
     \<and> \<not> sorted (map (finite_value \<circ> snd) recorded)
     \<and> \<not> sorted (rev (map (finite_value \<circ> snd) recorded))"
proof -
  let ?er = "[(ensemble_labels ! 0, [(1 :: int, Finite (8106479329266893 / 2 ^ 53)), (2, Finite (3 / 4)),
                                    (3, Finite (8106479329266893 / 2 ^ 53)), (4, Finite (3 / 4))]),
             (ensemble_labels ! 1, [(1, Finite (8106479329266893 / 2 ^ 53)), (2, Finite (3 / 4)),
                                    (3, Finite (8106479329266893 / 2 ^ 53)), (4, Finite (3 / 4))]),
             (ensemble_labels ! 2, [(1, Finite (8106479329266893 / 2 ^ 53)), (2, Finite (3 / 4)),
                                    (3, Finite (8106479329266893 / 2 ^ 53)), (4, Finite (3 / 4))])]"
  from toy_oob_small have run: "oob_errors toy_forest [1, 2] [1, 2] 1 4 toy_ensemble 0
      = (Inr ?er, snd (oob_errors toy_forest [1, 2] [1, 2] 1 4 toy_ensemble 0))"
    by (simp add: prod_eq_iff)
  from oob_errors_sizes_nondecreasing [OF run toy_oob_distinct toy_oob_member]
  obtain recorded where r: "map_of ?er (ensemble_labels ! 0) = Some recorded"
    "sorted (map fst recorded)"
    by blast
  from r(1) have "recorded = [(1, Finite (8106479329266893 / 2 ^ 53)), (2, Finite (3 / 4)),
                    (3, Finite (8106479329266893 / 2 ^ 53)), (4, Finite (3 / 4))]"
    by simp
  with r run show ?thesis by auto
qed

end
